theory Spec2Isabelle
  imports Main "HOL-Library.Sublist"
begin

section \<open>Google Drive document conversion\<close>

text \<open>
  A shallow embedding of \<^verbatim>\<open>backend/onyx/connectors/google_drive/doc_conversion.py\<close>:
  the section extractor \<^verbatim>\<open>_extract_sections_basic\<close>, the document assembler
  \<^verbatim>\<open>convert_drive_item_to_document\<close> and the slim projection
  \<^verbatim>\<open>build_slim_document\<close>.

  Every function result has the shape \<open>(exn + 'a) option\<close> or \<open>exn + 'a\<close>:
  \<open>Inr v\<close> is a normal return of \<open>v\<close>, \<open>Inl e\<close> is the exception \<open>e\<close> leaving the
  function, and, where a loop of the source may run forever, \<open>None\<close> is a call that
  does not return.
\<close>

subsection \<open>Exceptions\<close>

text \<open>
  \<^verbatim>\<open>googleapiclient.errors.HttpError\<close> carries \<^verbatim>\<open>status_code\<close>, \<^verbatim>\<open>reason\<close> and
  \<^verbatim>\<open>error_details\<close>; the latter is a list of dictionaries or a plain string.
\<close>

datatype error_details =
    DetailList "(string \<times> string) list list"
  | DetailText string

record http_error =
  status_code :: int
  reason :: string
  error_details :: error_details

text \<open>
  The exceptions of the model are all subclasses of Python's \<^verbatim>\<open>Exception\<close>, so each of
  them is caught by an \<^verbatim>\<open>except Exception\<close> clause; only \<open>HttpError\<close> is caught by
  \<^verbatim>\<open>except HttpError\<close>. \<open>OtherError\<close> stands for any further exception a
  collaborator may raise (a socket timeout, a parse error, ...).
\<close>

datatype exn =
    KeyError string
  | IndexError
  | TypeError
  | ValueError string
  | HttpError http_error
  | OtherError string

type_synonym bytes = string

subsection \<open>Sections\<close>

record Section =
  link :: string
  text' :: string

subsection \<open>Python's \<^verbatim>\<open>str\<close> on integers and \<^verbatim>\<open>str.join\<close>\<close>

fun str_nat :: "nat \<Rightarrow> string" where
  "str_nat n =
     (if n < 10 then [char_of (48 + n)]
      else str_nat (n div 10) @ [char_of (48 + n mod 10)])"

declare str_nat.simps [simp del]

definition str_int :: "int \<Rightarrow> string" where
  "str_int i = (if i < 0 then CHR ''-'' # str_nat (nat (- i)) else str_nat (nat i))"

fun join :: "string \<Rightarrow> string list \<Rightarrow> string" where
  "join sep [] = []"
| "join sep [x] = x"
| "join sep (x # y # ys) = x @ sep @ join sep (y # ys)"

subsection \<open>The column-count-to-letter loop (lines 78--82)\<close>

text \<open>
  \<^verbatim>\<open>
  end_column = ""
  while column_count:
      column_count, remainder = divmod(column_count - 1, 26)
      end_column = chr(65 + remainder) + end_column
  \<close>
  The loop runs while the count is non-zero; on a negative count it never ends (the
  count settles at \<open>-1\<close>), so the loop is a partial function. Python's \<^verbatim>\<open>divmod\<close> by
  the positive 26 is floor division, as \<open>div\<close> and \<open>mod\<close> on \<open>int\<close> are.
\<close>

partial_function (option) column_letter :: "int \<Rightarrow> string \<Rightarrow> string option" where
  "column_letter column_count end_column =
     (if column_count \<noteq> 0
      then column_letter ((column_count - 1) div 26)
             (char_of (65 + (column_count - 1) mod 26) # end_column)
      else Some end_column)"

declare column_letter.simps [code]

text \<open>
  The conversion as the specification words it: bijective base 26, the letter index
  \<open>(n - 1) mod 26\<close>, the next \<open>n\<close> being \<open>(n - 1) div 26\<close>, letters prepended.
\<close>

function bijective_base26 :: "int \<Rightarrow> string" where
  "bijective_base26 n =
     (if n \<le> 0 then []
      else bijective_base26 ((n - 1) div 26) @ [char_of (65 + (n - 1) mod 26)])"
  by pat_completeness auto
termination
  by (relation "measure nat") auto

declare bijective_base26.simps [simp del]

text \<open>
  The number a column label denotes in bijective base 26 (\<open>A = 1\<close>, ..., \<open>Z = 26\<close>); it
  serves to state that the conversion loses nothing.
\<close>

fun column_number :: "string \<Rightarrow> int" where
  "column_number [] = 0"
| "column_number (c # cs) = (of_char c - 64) * 26 ^ length cs + column_number cs"

subsection \<open>Constants imported from other modules\<close>

text \<open>
  The values of the enumeration \<^verbatim>\<open>GDriveMimeType\<close> and the constants of
  \<^verbatim>\<open>onyx.connectors.google_drive.constants\<close>, \<^verbatim>\<open>onyx.configs.constants\<close> and
  \<^verbatim>\<open>onyx.configs.app_configs\<close> are declared in other modules, so they are
  parameters here. The enumeration has at least the ten members this module names;
  \<open>other_mime_types\<close> holds the values of any further member.
\<close>

record constants =
  DOC :: string
  SPREADSHEET :: string
  SPREADSHEET_OPEN_FORMAT :: string
  SPREADSHEET_MS_EXCEL :: string
  PDF :: string
  WORD_DOC :: string
  PPT :: string
  POWERPOINT :: string
  PLAIN_TEXT :: string
  MARKDOWN :: string
  other_mime_types :: "string list"
  DRIVE_FOLDER_TYPE :: string
  DRIVE_SHORTCUT_TYPE :: string
  UNSUPPORTED_FILE_TYPE_CONTENT :: string
  IGNORE_FOR_QA :: string
  CONTINUE_ON_CONNECTOR_FAILURE :: bool

definition ERRORS_TO_CONTINUE_ON :: "string list" where
  "ERRORS_TO_CONTINUE_ON = [''cannotExportFile'', ''exportSizeLimitExceeded'', ''cannotDownloadFile'']"

text \<open>\<^verbatim>\<open>supported_file_types = set(item.value for item in GDriveMimeType)\<close>\<close>

definition supported_file_types :: "constants \<Rightarrow> string set" where
  "supported_file_types c =
     set ([DOC c, SPREADSHEET c, SPREADSHEET_OPEN_FORMAT c, SPREADSHEET_MS_EXCEL c, PDF c,
           WORD_DOC c, PPT c, POWERPOINT c, PLAIN_TEXT c, MARKDOWN c] @ other_mime_types c)"

subsection \<open>File descriptors\<close>

text \<open>
  \<^verbatim>\<open>GoogleDriveFileType\<close> is \<^verbatim>\<open>dict[str, Any]\<close>. Each key the module reads is a field
  that is \<open>None\<close> when the dictionary has no such key: \<^verbatim>\<open>file.get(k)\<close> reads the
  field, \<^verbatim>\<open>file[k]\<close> raises \<open>KeyError k\<close> on \<open>None\<close>. The key \<^verbatim>\<open>"id"\<close> is the field
  \<open>file_id\<close>.
\<close>

record owner =
  emailAddress :: "string option"

type_synonym permission = "(string \<times> string) list"

record GoogleDriveFile =
  mimeType :: "string option"
  webViewLink :: "string option"
  file_id :: "string option"
  name :: "string option"
  modifiedTime :: "string option"
  driveId :: "string option"
  permissions :: "permission list option"
  permissionIds :: "string list option"
  owners :: "owner list option"

subsection \<open>Responses of the Sheets API and of the workbook reader\<close>

record grid_properties =
  rowCount :: "int option"
  columnCount :: "int option"

record sheet_properties =
  title :: "string option"
  sheetId :: "int option"
  gridProperties :: "grid_properties option"

record sheet =
  properties :: "sheet_properties option"

record spreadsheet =
  sheets :: "sheet list option"

text \<open>The response of \<^verbatim>\<open>values().get\<close>; its cells are the rendered strings.\<close>

record values_response =
  values' :: "string list list option"

text \<open>
  A worksheet as \<^verbatim>\<open>openpyxl\<close> yields it with \<^verbatim>\<open>values_only=True\<close>: the empty cell
  is \<^verbatim>\<open>None\<close>, and \<^verbatim>\<open>str\<close> renders it as \<^verbatim>\<open>"None"\<close>. The cells modelled are the
  empty cell, strings and integers.
\<close>

datatype xl_cell = XNone | XStr string | XInt int

fun str_cell :: "xl_cell \<Rightarrow> string" where
  "str_cell XNone = ''None''"
| "str_cell (XStr s) = s"
| "str_cell (XInt i) = str_int i"

record worksheet =
  worksheet_title :: string
  rows :: "xl_cell list list"

subsection \<open>Collaborators\<close>

text \<open>
  The calls the module makes into the Drive, Sheets and Docs clients, the decoders and
  the standard library, each with the exception it may raise. \<open>build_sheets\<close> is
  \<^verbatim>\<open>build("sheets", "v4", credentials=...)\<close>, with the exception it raises if any;
  \<open>spreadsheets_get\<close> and \<open>values_get\<close> are the two calls of the Sheets client, by file id
  and by file id and range; \<open>get_media\<close> and \<open>export\<close> are the calls of the Drive client
  with \<^verbatim>\<open>.execute()\<close>; \<open>decode_utf8\<close> is \<^verbatim>\<open>bytes.decode("utf-8")\<close>; \<open>load_workbook\<close>
  is the temporary file written and opened with \<^verbatim>\<open>openpyxl\<close>; \<open>read_pdf_file\<close> gives
  the text of the pair it returns; \<open>fromisoformat_utc\<close> is
  \<^verbatim>\<open>datetime.fromisoformat(s).astimezone(timezone.utc)\<close> as seconds since the epoch.
  A call is a function of its arguments: asked twice the same, a collaborator answers
  the same.
\<close>

record services =
  build_sheets :: "exn option"
  spreadsheets_get :: "string \<Rightarrow> exn + spreadsheet"
  values_get :: "string \<Rightarrow> string \<Rightarrow> exn + values_response"
  get_media :: "string \<Rightarrow> exn + bytes"
  export :: "string \<Rightarrow> string \<Rightarrow> exn + bytes"
  decode_utf8 :: "bytes \<Rightarrow> exn + string"
  load_workbook :: "bytes \<Rightarrow> exn + worksheet list"
  get_unstructured_api_key :: "exn + string option"
  unstructured_to_text :: "bytes \<Rightarrow> string \<Rightarrow> exn + string"
  docx_to_text :: "bytes \<Rightarrow> exn + string"
  read_pdf_file :: "bytes \<Rightarrow> exn + string"
  pptx_to_text :: "bytes \<Rightarrow> exn + string"
  get_document_sections :: "string \<Rightarrow> exn + Section list"
  fromisoformat_utc :: "string \<Rightarrow> exn + int"

subsection \<open>Google Sheets extraction (lines 57--116)\<close>

text \<open>
  One round of the loop over \<^verbatim>\<open>spreadsheet["sheets"]\<close> (lines 70--109): the sections
  the sheet appends (none or one), or the exception that leaves the loop. An
  \<open>HttpError\<close> of the values call is caught and the sheet skipped; any other exception
  leaves the loop.
\<close>

definition sheet_text :: "string \<Rightarrow> string list list \<Rightarrow> string" where
  "sheet_text sheet_name vs =
     ''Sheet: '' @ sheet_name @ ''\<newline>'' @ concat (map (\<lambda>row. join [CHR 0x09] row @ ''\<newline>'') vs)"

definition range_name :: "string \<Rightarrow> string \<Rightarrow> int \<Rightarrow> string" where
  "range_name sheet_name end_column row_count =
     [CHR 0x27] @ sheet_name @ [CHR 0x27] @ ''!A1:'' @ end_column @ str_int row_count"

definition sheet_step ::
  "services \<Rightarrow> string \<Rightarrow> string \<Rightarrow> sheet \<Rightarrow> (exn + Section list) option" where
  "sheet_step env fid lnk sh =
     (case properties sh of
        None \<Rightarrow> Some (Inl (KeyError ''properties''))
      | Some p \<Rightarrow>
     (case title p of
        None \<Rightarrow> Some (Inl (KeyError ''title''))
      | Some sheet_name \<Rightarrow>
     (case sheetId p of
        None \<Rightarrow> Some (Inl (KeyError ''sheetId''))
      | Some sheet_id \<Rightarrow>
     (let grid = (case gridProperties p of
                    None \<Rightarrow> \<lparr>rowCount = None, columnCount = None\<rparr>
                  | Some g \<Rightarrow> g);
          row_count = (case rowCount grid of None \<Rightarrow> 1000 | Some r \<Rightarrow> r);
          column_count = (case columnCount grid of None \<Rightarrow> 26 | Some k \<Rightarrow> k)
      in
     (case column_letter column_count [] of
        None \<Rightarrow> None
      | Some end_column \<Rightarrow>
     (case values_get env fid (range_name sheet_name end_column row_count) of
        Inl (HttpError h) \<Rightarrow> Some (Inr [])
      | Inl e \<Rightarrow> Some (Inl e)
      | Inr result \<Rightarrow>
          (let vs = (case values' result of None \<Rightarrow> [] | Some v \<Rightarrow> v)
           in if vs \<noteq> []
              then Some (Inr [\<lparr>link = lnk @ ''#gid='' @ str_int sheet_id,
                                text' = sheet_text sheet_name vs\<rparr>])
              else Some (Inr []))))))))"

fun sheets_loop ::
  "services \<Rightarrow> string \<Rightarrow> string \<Rightarrow> sheet list \<Rightarrow> Section list \<Rightarrow> (exn + Section list) option"
  where
  "sheets_loop env fid lnk [] sections = Some (Inr sections)"
| "sheets_loop env fid lnk (sh # rest) sections =
     (case sheet_step env fid lnk sh of
        None \<Rightarrow> None
      | Some (Inl e) \<Rightarrow> Some (Inl e)
      | Some (Inr new) \<Rightarrow> sheets_loop env fid lnk rest (sections @ new))"

text \<open>The body of the inner \<^verbatim>\<open>try\<close> (lines 59--110).\<close>

definition google_sheets_extraction ::
  "services \<Rightarrow> GoogleDriveFile \<Rightarrow> string \<Rightarrow> (exn + Section list) option" where
  "google_sheets_extraction env f lnk =
     (case build_sheets env of
        Some e \<Rightarrow> Some (Inl e)
      | None \<Rightarrow>
     (case file_id f of
        None \<Rightarrow> Some (Inl (KeyError ''id''))
      | Some fid \<Rightarrow>
     (case spreadsheets_get env fid of
        Inl e \<Rightarrow> Some (Inl e)
      | Inr sp \<Rightarrow>
     (case sheets sp of
        None \<Rightarrow> Some (Inl (KeyError ''sheets''))
      | Some shs \<Rightarrow> sheets_loop env fid lnk shs []))))"

subsection \<open>Microsoft Excel extraction (lines 119--160)\<close>

definition worksheet_text :: "worksheet \<Rightarrow> string" where
  "worksheet_text ws =
     ''Sheet: '' @ worksheet_title ws @ ''\<newline>\<newline>'' @
     join ''\<newline>\<newline>''
       (map (\<lambda>row. join '','' (map str_cell row)) (filter (\<lambda>row. row \<noteq> []) (rows ws)))"

text \<open>The body of the \<^verbatim>\<open>try\<close> (lines 124--152).\<close>

definition excel_workbook_sections ::
  "services \<Rightarrow> GoogleDriveFile \<Rightarrow> string \<Rightarrow> exn + Section list" where
  "excel_workbook_sections env f lnk =
     (case file_id f of
        None \<Rightarrow> Inl (KeyError ''id'')
      | Some fid \<Rightarrow>
     (case get_media env fid of
        Inl e \<Rightarrow> Inl e
      | Inr response \<Rightarrow>
     (case load_workbook env response of
        Inl e \<Rightarrow> Inl e
      | Inr worksheets \<Rightarrow>
          Inr (map (\<lambda>ws. \<lparr>link = lnk, text' = worksheet_text ws\<rparr>) worksheets))))"

text \<open>
  With its handler (lines 154--160), whose log line reads \<^verbatim>\<open>file['name']\<close> before the
  error section is returned.
\<close>

definition excel_extraction ::
  "services \<Rightarrow> GoogleDriveFile \<Rightarrow> string \<Rightarrow> exn + Section list" where
  "excel_extraction env f lnk =
     (case excel_workbook_sections env f lnk of
        Inr sections \<Rightarrow> Inr sections
      | Inl e \<Rightarrow>
          (case name f of None \<Rightarrow> Inl (KeyError ''name'')
           | Some _ \<Rightarrow> Inr [\<lparr>link = lnk, text' = ''Error extracting data from Excel file''\<rparr>]))"

subsection \<open>Export, plain text and binary documents (lines 162--232)\<close>

text \<open>Export for Google Docs, PPT, and fallback for spreadsheets (lines 164--180).\<close>

definition export_extraction ::
  "constants \<Rightarrow> services \<Rightarrow> GoogleDriveFile \<Rightarrow> string \<Rightarrow> string \<Rightarrow> exn + Section list" where
  "export_extraction c env f mime_type lnk =
     (let export_mime_type = (if mime_type \<noteq> SPREADSHEET c then ''text/plain'' else ''text/csv'')
      in
     (case file_id f of
        None \<Rightarrow> Inl (KeyError ''id'')
      | Some fid \<Rightarrow>
     (case export env fid export_mime_type of
        Inl e \<Rightarrow> Inl e
      | Inr exported \<Rightarrow>
     (case decode_utf8 env exported of
        Inl e \<Rightarrow> Inl e
      | Inr t \<Rightarrow> Inr [\<lparr>link = lnk, text' = t\<rparr>]))))"

text \<open>Plain text and Markdown files (lines 184--196).\<close>

definition plain_text_extraction ::
  "services \<Rightarrow> GoogleDriveFile \<Rightarrow> string \<Rightarrow> exn + Section list" where
  "plain_text_extraction env f lnk =
     (case file_id f of
        None \<Rightarrow> Inl (KeyError ''id'')
      | Some fid \<Rightarrow>
     (case get_media env fid of
        Inl e \<Rightarrow> Inl e
      | Inr response \<Rightarrow>
     (case decode_utf8 env response of
        Inl e \<Rightarrow> Inl e
      | Inr t \<Rightarrow> Inr [\<lparr>link = lnk, text' = t\<rparr>])))"

text \<open>
  Word, PowerPoint, PDF files (lines 199--226), falling through to the catch-all
  \<^verbatim>\<open>raise ValueError\<close> of line 232 when no inner branch returns.
\<close>

definition one_section :: "string \<Rightarrow> exn + string \<Rightarrow> exn + Section list" where
  "one_section lnk r = (case r of Inl e \<Rightarrow> Inl e | Inr t \<Rightarrow> Inr [\<lparr>link = lnk, text' = t\<rparr>])"

definition binary_extraction ::
  "constants \<Rightarrow> services \<Rightarrow> GoogleDriveFile \<Rightarrow> string \<Rightarrow> string \<Rightarrow> exn + Section list" where
  "binary_extraction c env f mime_type lnk =
     (case file_id f of
        None \<Rightarrow> Inl (KeyError ''id'')
      | Some fid \<Rightarrow>
     (case get_media env fid of
        Inl e \<Rightarrow> Inl e
      | Inr response \<Rightarrow>
     (case get_unstructured_api_key env of
        Inl e \<Rightarrow> Inl e
      | Inr key \<Rightarrow>
          (if key \<noteq> None \<and> key \<noteq> Some []
           then one_section lnk
                  (unstructured_to_text env response
                     (case name f of None \<Rightarrow> fid | Some n \<Rightarrow> n))
           else if mime_type = WORD_DOC c then one_section lnk (docx_to_text env response)
           else if mime_type = PDF c then one_section lnk (read_pdf_file env response)
           else if mime_type = POWERPOINT c then one_section lnk (pptx_to_text env response)
           else Inl (ValueError (''Unsupported file type: '' @ mime_type))))))"

text \<open>
  Lines 162--232. Each branch of the first \<^verbatim>\<open>if\<close>/\<^verbatim>\<open>elif\<close> returns or raises,
  so the chain of the source is one chain of alternatives ending in the catch-all
  \<^verbatim>\<open>raise ValueError\<close>.
\<close>

definition later_strategies ::
  "constants \<Rightarrow> services \<Rightarrow> GoogleDriveFile \<Rightarrow> string \<Rightarrow> string \<Rightarrow> exn + Section list" where
  "later_strategies c env f mime_type lnk =
     (if mime_type \<in> set [DOC c, PPT c, SPREADSHEET c]
      then export_extraction c env f mime_type lnk
      else if mime_type \<in> set [PLAIN_TEXT c, MARKDOWN c]
      then plain_text_extraction env f lnk
      else if mime_type \<in> set [WORD_DOC c, POWERPOINT c, PDF c]
      then binary_extraction c env f mime_type lnk
      else Inl (ValueError (''Unsupported file type: '' @ mime_type)))"

subsection \<open>The section extractor \<^verbatim>\<open>_extract_sections_basic\<close>\<close>

text \<open>
  The body of the outer \<^verbatim>\<open>try\<close> (lines 55--232). When the Sheets extraction raises,
  the handler of lines 112--116 logs a line that reads \<^verbatim>\<open>file['name']\<close> and control
  falls through to line 164.
\<close>

definition strategies ::
  "constants \<Rightarrow> services \<Rightarrow> GoogleDriveFile \<Rightarrow> string \<Rightarrow> string \<Rightarrow> (exn + Section list) option"
  where
  "strategies c env f mime_type lnk =
     (if mime_type = SPREADSHEET c
      then (case google_sheets_extraction env f lnk of
              None \<Rightarrow> None
            | Some (Inr sections) \<Rightarrow> Some (Inr sections)
            | Some (Inl e) \<Rightarrow>
                (case name f of None \<Rightarrow> Some (Inl (KeyError ''name''))
                 | Some _ \<Rightarrow> Some (later_strategies c env f mime_type lnk)))
      else if mime_type \<in> set [SPREADSHEET_OPEN_FORMAT c, SPREADSHEET_MS_EXCEL c]
      then Some (excel_extraction env f lnk)
      else Some (later_strategies c env f mime_type lnk))"

definition unsupported_section :: "constants \<Rightarrow> string \<Rightarrow> Section" where
  "unsupported_section c lnk = \<lparr>link = lnk, text' = UNSUPPORTED_FILE_TYPE_CONTENT c\<rparr>"

text \<open>
  Lines 43--235: the two subscripts of lines 46--47 stand before the \<^verbatim>\<open>try\<close>; the
  handler of lines 234--235 turns every exception of the body into the one section.
\<close>

definition extract_sections_basic ::
  "constants \<Rightarrow> services \<Rightarrow> GoogleDriveFile \<Rightarrow> (exn + Section list) option" where
  "extract_sections_basic c env f =
     (case mimeType f of
        None \<Rightarrow> Some (Inl (KeyError ''mimeType''))
      | Some mime_type \<Rightarrow>
     (case webViewLink f of
        None \<Rightarrow> Some (Inl (KeyError ''webViewLink''))
      | Some lnk \<Rightarrow>
          (if mime_type \<notin> supported_file_types c then Some (Inr [unsupported_section c lnk])
           else (case strategies c env f mime_type lnk of
                   None \<Rightarrow> None
                 | Some (Inl e) \<Rightarrow> Some (Inr [unsupported_section c lnk])
                 | Some (Inr sections) \<Rightarrow> Some (Inr sections)))))"

subsection \<open>Documents\<close>

datatype DocumentSource = GOOGLE_DRIVE

text \<open>The field \<open>doc_id\<close> is the \<^verbatim>\<open>id\<close> of the Python class.\<close>

record Document =
  doc_id :: string
  sections :: "Section list"
  source :: DocumentSource
  semantic_identifier :: string
  doc_updated_at :: int
  metadata :: "(string \<times> string) list"
  additional_info :: "string option"

text \<open>
  The dictionary \<^verbatim>\<open>perm_sync_data\<close> has the six keys of lines 313--318; the fields
  \<open>perm_doc_id\<close>, \<open>perm_permissions\<close> and \<open>perm_name\<close> are its keys \<^verbatim>\<open>doc_id\<close>,
  \<^verbatim>\<open>permissions\<close> and \<^verbatim>\<open>name\<close>.
\<close>

record PermSyncData =
  perm_doc_id :: "string option"
  drive_id :: "string option"
  perm_permissions :: "permission list"
  permission_ids :: "string list"
  perm_name :: "string option"
  owner_email :: "string option"

record SlimDocument =
  slim_id :: string
  perm_sync_data :: PermSyncData

subsection \<open>The document assembler \<^verbatim>\<open>convert_drive_item_to_document\<close>\<close>

text \<open>
  Lines 253--264: the structured sections of a Google Doc. The handler of
  \<^verbatim>\<open>except Exception\<close> logs a line that reads \<^verbatim>\<open>file['name']\<close> and leaves
  \<open>sections\<close> empty.
\<close>

definition structured_sections ::
  "constants \<Rightarrow> services \<Rightarrow> GoogleDriveFile \<Rightarrow> exn + Section list" where
  "structured_sections c env f =
     (if mimeType f = Some (DOC c)
      then (case (case file_id f of
                    None \<Rightarrow> Inl (KeyError ''id'')
                  | Some fid \<Rightarrow> get_document_sections env fid) of
              Inr secs \<Rightarrow> Inr secs
            | Inl e \<Rightarrow>
                (case name f of None \<Rightarrow> Inl (KeyError ''name'') | Some _ \<Rightarrow> Inr []))
      else Inr [])"

text \<open>
  \<^verbatim>\<open>e.error_details[0][key] if e.error_details else e.reason\<close> (lines 272--273): an
  empty list and an empty string are falsy; subscripting a character of a non-empty
  string with a key is a \<open>TypeError\<close>.
\<close>

definition detail_or_reason :: "http_error \<Rightarrow> string \<Rightarrow> exn + string" where
  "detail_or_reason h key =
     (case error_details h of
        DetailList [] \<Rightarrow> Inr (reason h)
      | DetailList (d # _) \<Rightarrow>
          (case map_of d key of None \<Rightarrow> Inl (KeyError key) | Some v \<Rightarrow> Inr v)
      | DetailText t \<Rightarrow> (if t = [] then Inr (reason h) else Inl TypeError))"

text \<open>
  The handler of \<^verbatim>\<open>except HttpError\<close> (lines 271--280): \<open>Inr None\<close> is its
  \<^verbatim>\<open>return None\<close>, \<open>Inl (HttpError h)\<close> its bare \<^verbatim>\<open>raise\<close>.
\<close>

definition handle_http_error :: "GoogleDriveFile \<Rightarrow> http_error \<Rightarrow> exn + Document option" where
  "handle_http_error f h =
     (case detail_or_reason h ''reason'' of
        Inl e \<Rightarrow> Inl e
      | Inr reason' \<Rightarrow>
     (case detail_or_reason h ''message'' of
        Inl e \<Rightarrow> Inl e
      | Inr message \<Rightarrow>
          (if status_code h = 403 \<and> reason' \<in> set ERRORS_TO_CONTINUE_ON
           then (case name f of None \<Rightarrow> Inl (KeyError ''name'') | Some _ \<Rightarrow> Inr None)
           else Inl (HttpError h))))"

text \<open>
  Lines 281--296: nothing for an empty list of sections, else the \<open>Document\<close>, its
  arguments evaluated in the order they are written.
\<close>

definition build_document ::
  "constants \<Rightarrow> services \<Rightarrow> GoogleDriveFile \<Rightarrow> Section list \<Rightarrow> exn + Document option" where
  "build_document c env f secs =
     (if secs = [] then Inr None
      else
     (case webViewLink f of
        None \<Rightarrow> Inl (KeyError ''webViewLink'')
      | Some lnk \<Rightarrow>
     (case name f of
        None \<Rightarrow> Inl (KeyError ''name'')
      | Some nm \<Rightarrow>
     (case modifiedTime f of
        None \<Rightarrow> Inl (KeyError ''modifiedTime'')
      | Some t \<Rightarrow>
     (case fromisoformat_utc env t of
        Inl e \<Rightarrow> Inl e
      | Inr updated \<Rightarrow>
          Inr (Some \<lparr>doc_id = lnk,
                      sections = secs,
                      source = GOOGLE_DRIVE,
                      semantic_identifier = nm,
                      doc_updated_at = updated,
                      metadata = (if \<exists>s \<in> set secs. text' s \<noteq> [] then []
                                  else [(IGNORE_FOR_QA c, ''True'')]),
                      additional_info = file_id f\<rparr>))))))"

text \<open>The body of the \<^verbatim>\<open>try\<close> (lines 244--296).\<close>

definition convert_body ::
  "constants \<Rightarrow> services \<Rightarrow> GoogleDriveFile \<Rightarrow> (exn + Document option) option" where
  "convert_body c env f =
     (if mimeType f = Some (DRIVE_SHORTCUT_TYPE c) then Some (Inr None)
      else if mimeType f = Some (DRIVE_FOLDER_TYPE c) then Some (Inr None)
      else
     (case structured_sections c env f of
        Inl e \<Rightarrow> Some (Inl e)
      | Inr sections0 \<Rightarrow>
          (if sections0 = []
           then (case extract_sections_basic c env f of
                   None \<Rightarrow> None
                 | Some (Inl (HttpError h)) \<Rightarrow> Some (handle_http_error f h)
                 | Some (Inl e) \<Rightarrow> Some (Inl e)
                 | Some (Inr secs) \<Rightarrow> Some (build_document c env f secs))
           else Some (build_document c env f sections0))))"

text \<open>
  Lines 238--302: the handler re-raises unless \<^verbatim>\<open>CONTINUE_ON_CONNECTOR_FAILURE\<close>, and
  otherwise falls to the \<^verbatim>\<open>return None\<close> of the last line.
\<close>

definition convert_drive_item_to_document ::
  "constants \<Rightarrow> services \<Rightarrow> GoogleDriveFile \<Rightarrow> (exn + Document option) option" where
  "convert_drive_item_to_document c env f =
     (case convert_body c env f of
        None \<Rightarrow> None
      | Some (Inl e) \<Rightarrow>
          (if \<not> CONTINUE_ON_CONNECTOR_FAILURE c then Some (Inl e) else Some (Inr None))
      | Some (Inr r) \<Rightarrow> Some (Inr r))"

subsection \<open>The slim projection \<^verbatim>\<open>build_slim_document\<close>\<close>

text \<open>
  \<^verbatim>\<open>file.get("owners", [{}])[0].get("emailAddress")\<close>: the default list holds one
  empty dictionary; the subscript \<^verbatim>\<open>[0]\<close> of an empty list raises \<open>IndexError\<close>.
\<close>

definition first_owner_email :: "GoogleDriveFile \<Rightarrow> exn + string option" where
  "first_owner_email f =
     (case (case owners f of None \<Rightarrow> [\<lparr>emailAddress = None\<rparr>] | Some os \<Rightarrow> os) of
        [] \<Rightarrow> Inl IndexError
      | ow # _ \<Rightarrow> Inr (emailAddress ow))"

definition build_slim_document :: "constants \<Rightarrow> GoogleDriveFile \<Rightarrow> exn + SlimDocument option" where
  "build_slim_document c f =
     (if mimeType f \<in> set [Some (DRIVE_FOLDER_TYPE c), Some (DRIVE_SHORTCUT_TYPE c)]
      then Inr None
      else
     (case webViewLink f of
        None \<Rightarrow> Inl (KeyError ''webViewLink'')
      | Some lnk \<Rightarrow>
     (case first_owner_email f of
        Inl e \<Rightarrow> Inl e
      | Inr email \<Rightarrow>
          Inr (Some \<lparr>slim_id = lnk,
                      perm_sync_data =
                        \<lparr>perm_doc_id = file_id f,
                         drive_id = driveId f,
                         perm_permissions = (case permissions f of None \<Rightarrow> [] | Some ps \<Rightarrow> ps),
                         permission_ids = (case permissionIds f of None \<Rightarrow> [] | Some ps \<Rightarrow> ps),
                         perm_name = name f,
                         owner_email = email\<rparr>\<rparr>))))"

subsection \<open>The sheets of a spreadsheet, read by name\<close>

text \<open>
  What the loop reads of one entry of \<^verbatim>\<open>spreadsheet["sheets"]\<close>: title, sheet id and
  the declared extent with the defaults of lines 74--76 (1000 rows, 26 columns).
\<close>

definition sheet_title :: "sheet \<Rightarrow> string" where
  "sheet_title sh =
     (case properties sh of None \<Rightarrow> []
      | Some p \<Rightarrow> (case title p of None \<Rightarrow> [] | Some t \<Rightarrow> t))"

definition sheet_gid :: "sheet \<Rightarrow> int" where
  "sheet_gid sh =
     (case properties sh of None \<Rightarrow> 0
      | Some p \<Rightarrow> (case sheetId p of None \<Rightarrow> 0 | Some i \<Rightarrow> i))"

definition sheet_grid :: "sheet \<Rightarrow> grid_properties" where
  "sheet_grid sh =
     (case properties sh of None \<Rightarrow> \<lparr>rowCount = None, columnCount = None\<rparr>
      | Some p \<Rightarrow>
          (case gridProperties p of None \<Rightarrow> \<lparr>rowCount = None, columnCount = None\<rparr>
           | Some g \<Rightarrow> g))"

definition sheet_row_count :: "sheet \<Rightarrow> int" where
  "sheet_row_count sh = (case rowCount (sheet_grid sh) of None \<Rightarrow> 1000 | Some r \<Rightarrow> r)"

definition sheet_column_count :: "sheet \<Rightarrow> int" where
  "sheet_column_count sh = (case columnCount (sheet_grid sh) of None \<Rightarrow> 26 | Some k \<Rightarrow> k)"

text \<open>A sheet entry with the keys the loop subscripts and a column count the loop ends on.\<close>

definition well_formed_sheet :: "sheet \<Rightarrow> bool" where
  "well_formed_sheet sh =
     ((case properties sh of None \<Rightarrow> False
       | Some p \<Rightarrow> title p \<noteq> None \<and> sheetId p \<noteq> None)
      \<and> 0 \<le> sheet_column_count sh)"

text \<open>The range \<^verbatim>\<open>'<name>'!A1:<letters><rows>\<close> of a sheet and the outcome of its fetch.\<close>

definition sheet_range :: "sheet \<Rightarrow> string" where
  "sheet_range sh =
     range_name (sheet_title sh) (bijective_base26 (sheet_column_count sh)) (sheet_row_count sh)"

definition sheet_values :: "services \<Rightarrow> string \<Rightarrow> sheet \<Rightarrow> exn + string list list" where
  "sheet_values env fid sh =
     (case values_get env fid (sheet_range sh) of
        Inl e \<Rightarrow> Inl e
      | Inr result \<Rightarrow> Inr (case values' result of None \<Rightarrow> [] | Some v \<Rightarrow> v))"

text \<open>The fetch of the sheet succeeds or raises an \<open>HttpError\<close>.\<close>

definition fetch_ok_or_http_error :: "services \<Rightarrow> string \<Rightarrow> sheet \<Rightarrow> bool" where
  "fetch_ok_or_http_error env fid sh =
     (case sheet_values env fid sh of
        Inl (HttpError h) \<Rightarrow> True
      | Inl e \<Rightarrow> False
      | Inr vs \<Rightarrow> True)"

text \<open>
  The result as the specification words it: one section for each sheet whose fetch
  succeeds with values, in sheet order.
\<close>

definition has_values :: "services \<Rightarrow> string \<Rightarrow> sheet \<Rightarrow> bool" where
  "has_values env fid sh =
     (case sheet_values env fid sh of Inl e \<Rightarrow> False | Inr vs \<Rightarrow> vs \<noteq> [])"

definition sheet_section :: "services \<Rightarrow> string \<Rightarrow> string \<Rightarrow> sheet \<Rightarrow> Section" where
  "sheet_section env fid lnk sh =
     \<lparr>link = lnk @ ''#gid='' @ str_int (sheet_gid sh),
      text' = sheet_text (sheet_title sh)
                (case sheet_values env fid sh of Inl e \<Rightarrow> [] | Inr vs \<Rightarrow> vs)\<rparr>"

definition native_sheet_sections ::
  "services \<Rightarrow> string \<Rightarrow> string \<Rightarrow> sheet list \<Rightarrow> Section list" where
  "native_sheet_sections env fid lnk shs =
     map (sheet_section env fid lnk) (filter (has_values env fid) shs)"

text \<open>The sheets the metadata call lists for a file (none when the call fails).\<close>

definition metadata_sheets :: "services \<Rightarrow> GoogleDriveFile \<Rightarrow> sheet list" where
  "metadata_sheets env f =
     (case file_id f of None \<Rightarrow> []
      | Some fid \<Rightarrow>
     (case spreadsheets_get env fid of Inl e \<Rightarrow> []
      | Inr sp \<Rightarrow> (case sheets sp of None \<Rightarrow> [] | Some shs \<Rightarrow> shs)))"

text \<open>
  The text of the one section the export fallback of a spreadsheet ends in: the decoded
  CSV export, or the sentinel text when the handler's log line, the export or the
  decoding raises.
\<close>

definition csv_fallback_text :: "constants \<Rightarrow> services \<Rightarrow> GoogleDriveFile \<Rightarrow> string" where
  "csv_fallback_text c env f =
     (case name f of None \<Rightarrow> UNSUPPORTED_FILE_TYPE_CONTENT c
      | Some _ \<Rightarrow>
     (case file_id f of None \<Rightarrow> UNSUPPORTED_FILE_TYPE_CONTENT c
      | Some fid \<Rightarrow>
     (case export env fid ''text/csv'' of Inl e \<Rightarrow> UNSUPPORTED_FILE_TYPE_CONTENT c
      | Inr exported \<Rightarrow>
     (case decode_utf8 env exported of Inl e \<Rightarrow> UNSUPPORTED_FILE_TYPE_CONTENT c
      | Inr t \<Rightarrow> t))))"

subsection \<open>A sample configuration and sample descriptors\<close>

text \<open>
  The MIME types Google Drive documents for its file kinds, a placeholder for the
  sentinel text, and collaborators whose remote calls and document decoders fail, while
  the UTF-8 decoding, the lookup of the API key (none is configured) and the reading of
  the timestamp succeed; the examples below override the calls they need.
\<close>

definition drive_constants :: constants where
  "drive_constants =
     \<lparr>DOC = ''application/vnd.google-apps.document'',
      SPREADSHEET = ''application/vnd.google-apps.spreadsheet'',
      SPREADSHEET_OPEN_FORMAT = ''application/vnd.openxmlformats-officedocument.spreadsheetml.sheet'',
      SPREADSHEET_MS_EXCEL = ''application/vnd.ms-excel'',
      PDF = ''application/pdf'',
      WORD_DOC = ''application/vnd.openxmlformats-officedocument.wordprocessingml.document'',
      PPT = ''application/vnd.google-apps.presentation'',
      POWERPOINT = ''application/vnd.openxmlformats-officedocument.presentationml.presentation'',
      PLAIN_TEXT = ''text/plain'',
      MARKDOWN = ''text/markdown'',
      other_mime_types = [],
      DRIVE_FOLDER_TYPE = ''application/vnd.google-apps.folder'',
      DRIVE_SHORTCUT_TYPE = ''application/vnd.google-apps.shortcut'',
      UNSUPPORTED_FILE_TYPE_CONTENT = ''unsupported file type'',
      IGNORE_FOR_QA = ''ignore_for_qa'',
      CONTINUE_ON_CONNECTOR_FAILURE = False\<rparr>"

definition failing_services :: services where
  "failing_services =
     \<lparr>build_sheets = None,
      spreadsheets_get = (\<lambda>_. Inl (OtherError ''unavailable'')),
      values_get = (\<lambda>_ _. Inl (OtherError ''unavailable'')),
      get_media = (\<lambda>_. Inl (OtherError ''unavailable'')),
      export = (\<lambda>_ _. Inl (OtherError ''unavailable'')),
      decode_utf8 = (\<lambda>b. Inr b),
      load_workbook = (\<lambda>_. Inl (OtherError ''not a workbook'')),
      get_unstructured_api_key = Inr None,
      unstructured_to_text = (\<lambda>_ _. Inl (OtherError ''unavailable'')),
      docx_to_text = (\<lambda>_. Inl (OtherError ''unavailable'')),
      read_pdf_file = (\<lambda>_. Inl (OtherError ''unavailable'')),
      pptx_to_text = (\<lambda>_. Inl (OtherError ''unavailable'')),
      get_document_sections = (\<lambda>_. Inl (OtherError ''unavailable'')),
      fromisoformat_utc = (\<lambda>_. Inr 1704067200)\<rparr>"

definition sample_file :: "string \<Rightarrow> GoogleDriveFile" where
  "sample_file mime =
     \<lparr>mimeType = Some mime,
      webViewLink = Some ''https://drive.example/f1'',
      file_id = Some ''f1'',
      name = Some ''report'',
      modifiedTime = Some ''2024-01-01T00:00:00+00:00'',
      driveId = None,
      permissions = None,
      permissionIds = None,
      owners = None\<rparr>"

definition forbidden :: "string \<Rightarrow> http_error" where
  "forbidden why =
     \<lparr>status_code = 403, reason = why,
      error_details = DetailList [[(''reason'', why), (''message'', ''not allowed'')]]\<rparr>"

definition sample_sheet :: "string \<Rightarrow> int \<Rightarrow> sheet" where
  "sample_sheet t i =
     \<lparr>properties = Some \<lparr>title = Some t, sheetId = Some i, gridProperties = None\<rparr>\<rparr>"

text \<open>
  A spreadsheet of four sheets: \<open>A\<close> has two rows, the fetch of \<open>B\<close> raises an
  \<open>HttpError\<close>, \<open>C\<close> has no values, \<open>D\<close> has one row. The CSV export is \<open>a,b\<close>.
\<close>

definition sample_sheets :: "sheet list" where
  "sample_sheets =
     [sample_sheet ''A'' 0, sample_sheet ''B'' 7, sample_sheet ''C'' 9, sample_sheet ''D'' 12]"

definition sheet_services :: services where
  "sheet_services =
     failing_services
       \<lparr>spreadsheets_get := (\<lambda>_. Inr \<lparr>sheets = Some sample_sheets\<rparr>),
        values_get :=
          (\<lambda>_ r. if r = range_name ''A'' ''Z'' 1000
                  then Inr \<lparr>values' = Some [[''x'', ''y''], [''z'']]\<rparr>
                  else if r = range_name ''B'' ''Z'' 1000
                  then Inl (HttpError (forbidden ''rateLimitExceeded''))
                  else if r = range_name ''D'' ''Z'' 1000
                  then Inr \<lparr>values' = Some [[''w'']]\<rparr>
                  else Inr \<lparr>values' = None\<rparr>),
        export := (\<lambda>_ _. Inr ''a,b'')\<rparr>"

text \<open>The same spreadsheet when the fetch of \<open>B\<close> times out instead.\<close>

definition timeout_services :: services where
  "timeout_services =
     sheet_services
       \<lparr>values_get :=
          (\<lambda>_ r. if r = range_name ''A'' ''Z'' 1000
                  then Inr \<lparr>values' = Some [[''x'', ''y''], [''z'']]\<rparr>
                  else Inl (OtherError ''timed out''))\<rparr>"

text \<open>
  The metadata call fails, the raw bytes open as a workbook of one sheet, the CSV
  export is \<open>a,b\<close>.
\<close>

definition no_metadata_services :: services where
  "no_metadata_services =
     failing_services
       \<lparr>spreadsheets_get := (\<lambda>_. Inl (OtherError ''unavailable'')),
        get_media := (\<lambda>_. Inr ''PK''),
        load_workbook := (\<lambda>_. Inr [\<lparr>worksheet_title = ''S'', rows = [[XStr ''x'', XInt 3]]\<rparr>]),
        export := (\<lambda>_ _. Inr ''a,b'')\<rparr>"

text \<open>The download of the file is refused with a reason of \<open>ERRORS_TO_CONTINUE_ON\<close>.\<close>

definition refusing_services :: services where
  "refusing_services =
     failing_services\<lparr>get_media := (\<lambda>_. Inl (HttpError (forbidden ''cannotDownloadFile'')))\<rparr>"

definition text_services :: services where
  "text_services = failing_services\<lparr>get_media := (\<lambda>_. Inr ''hello'')\<rparr>"

definition empty_spreadsheet_services :: services where
  "empty_spreadsheet_services =
     failing_services\<lparr>spreadsheets_get := (\<lambda>_. Inr \<lparr>sheets = Some []\<rparr>)\<rparr>"

text \<open>A spreadsheet whose one sheet declares a negative column count.\<close>

definition endless_services :: services where
  "endless_services =
     failing_services
       \<lparr>spreadsheets_get :=
          (\<lambda>_. Inr \<lparr>sheets = Some [\<lparr>properties = Some
             \<lparr>title = Some ''A'', sheetId = Some 0,
              gridProperties = Some \<lparr>rowCount = Some 10, columnCount = Some (- 1)\<rparr>\<rparr>\<rparr>]\<rparr>)\<rparr>"

text \<open>The documents the assembler builds from the sample descriptor.\<close>

definition hello_document :: Document where
  "hello_document =
     \<lparr>doc_id = ''https://drive.example/f1'',
      sections = [\<lparr>link = ''https://drive.example/f1'', text' = ''hello''\<rparr>],
      source = GOOGLE_DRIVE,
      semantic_identifier = ''report'',
      doc_updated_at = 1704067200,
      metadata = [],
      additional_info = Some ''f1''\<rparr>"

definition sentinel_document :: Document where
  "sentinel_document =
     \<lparr>doc_id = ''https://drive.example/f1'',
      sections = [\<lparr>link = ''https://drive.example/f1'', text' = ''unsupported file type''\<rparr>],
      source = GOOGLE_DRIVE,
      semantic_identifier = ''report'',
      doc_updated_at = 1704067200,
      metadata = [],
      additional_info = Some ''f1''\<rparr>"

section \<open>Properties\<close>

subsection \<open>The column letters\<close>

lemma column_letter_nonneg:
  "0 \<le> n \<Longrightarrow> column_letter n acc = Some (bijective_base26 n @ acc)"
proof (induction "nat n" arbitrary: n acc rule: less_induct)
  case less
  show ?case
  proof (cases "n = 0")
    case True
    then show ?thesis
      by (simp add: column_letter.simps bijective_base26.simps)
  next
    case False
    with less.prems have pos: "0 < n" by simp
    then have "nat ((n - 1) div 26) < nat n" and "0 \<le> (n - 1) div 26"
      by auto
    then have "column_letter ((n - 1) div 26) (char_of (65 + (n - 1) mod 26) # acc)
        = Some (bijective_base26 ((n - 1) div 26) @ char_of (65 + (n - 1) mod 26) # acc)"
      using less.hyps by blast
    with pos show ?thesis
      by (subst column_letter.simps, subst bijective_base26.simps) simp
  qed
qed

text \<open>On a negative count the loop does not end.\<close>

lemma column_letter_Some_nonneg:
  assumes "column_letter n acc = Some s"
  shows "0 \<le> n"
proof (rule column_letter.raw_induct [where P = "\<lambda>k _ _. 0 \<le> k", OF _ assms])
  fix f :: "int \<Rightarrow> string \<Rightarrow> string option" and k b y
  assume ih: "\<And>a b y. f a b = Some y \<Longrightarrow> 0 \<le> a"
    and step: "(if k \<noteq> 0 then f ((k - 1) div 26) (char_of (65 + (k - 1) mod 26) # b)
               else Some b) = Some y"
  show "0 \<le> k"
  proof (cases "k = 0")
    case True
    then show ?thesis by simp
  next
    case False
    with step ih have "0 \<le> (k - 1) div 26" by auto
    then show ?thesis by (simp add: pos_imp_zdiv_nonneg_iff)
  qed
qed

lemma column_letter_negative: "n < 0 \<Longrightarrow> column_letter n acc = None"
  using column_letter_Some_nonneg [of n acc] by (cases "column_letter n acc") auto

lemma column_number_snoc:
  "column_number (cs @ [c]) = column_number cs * 26 + (of_char c - 64)"
  by (induction cs) (auto simp: algebra_simps)

lemma of_char_letter:
  "0 \<le> r \<Longrightarrow> r < 26 \<Longrightarrow> of_char (char_of (65 + r :: int)) = 65 + r"
  by (simp add: take_bit_eq_mod)

lemma column_number_bijective_base26:
  "0 \<le> n \<Longrightarrow> column_number (bijective_base26 n) = n"
proof (induction n rule: bijective_base26.induct)
  case (1 n)
  show ?case
  proof (cases "n \<le> 0")
    case True
    with 1 show ?thesis by (simp add: bijective_base26.simps)
  next
    case False
    then have pos: "0 < n" by simp
    then have ih: "column_number (bijective_base26 ((n - 1) div 26)) = (n - 1) div 26"
      using 1 by auto
    have "of_char (char_of (65 + (n - 1) mod 26)) = 65 + (n - 1) mod 26"
      by (rule of_char_letter) auto
    with ih pos show ?thesis
      by (subst bijective_base26.simps) (simp add: column_number_snoc)
  qed
qed

text \<open>
  Claim C7. The column-count-to-letter conversion is the bijective base-26 conversion:
  the counts 1, 26, 27, 52, 702 and 703 give \<open>A\<close>, \<open>Z\<close>, \<open>AA\<close>, \<open>AZ\<close>, \<open>ZZ\<close> and
  \<open>AAA\<close>; each round of the loop on a non-zero count \<open>n\<close> prepends the letter of index
  \<open>(n - 1) mod 26\<close> and goes on with \<open>(n - 1) div 26\<close>; and on every count \<open>n \<ge> 0\<close> the
  loop returns the label the specification's conversion gives, which read back as a
  number in base 26 with the digits \<open>A = 1\<close>, ..., \<open>Z = 26\<close> is \<open>n\<close> again.
\<close>

theorem column_letter_bijective_base26:
  "column_letter 1 [] = Some ''A'' \<and> column_letter 26 [] = Some ''Z''
   \<and> column_letter 27 [] = Some ''AA'' \<and> column_letter 52 [] = Some ''AZ''
   \<and> column_letter 702 [] = Some ''ZZ'' \<and> column_letter 703 [] = Some ''AAA''
   \<and> (\<forall>n end_column. n \<noteq> 0 \<longrightarrow>
         column_letter n end_column =
           column_letter ((n - 1) div 26) (char_of (65 + (n - 1) mod 26) # end_column))
   \<and> (\<forall>n. 0 \<le> n \<longrightarrow>
         column_letter n [] = Some (bijective_base26 n) \<and> column_number (bijective_base26 n) = n)"
proof -
  have "column_letter 1 [] = Some ''A''" by code_simp
  moreover have "column_letter 26 [] = Some ''Z''" by code_simp
  moreover have "column_letter 27 [] = Some ''AA''" by code_simp
  moreover have "column_letter 52 [] = Some ''AZ''" by code_simp
  moreover have "column_letter 702 [] = Some ''ZZ''" by code_simp
  moreover have "column_letter 703 [] = Some ''AAA''" by code_simp
  moreover have
    "column_letter n e = column_letter ((n - 1) div 26) (char_of (65 + (n - 1) mod 26) # e)"
    if "n \<noteq> 0" for n e
    using that by (subst column_letter.simps) simp
  moreover have
    "column_letter n [] = Some (bijective_base26 n) \<and> column_number (bijective_base26 n) = n"
    if "0 \<le> n" for n
    using that column_letter_nonneg [of n "[]"] column_number_bijective_base26 [of n] by simp
  ultimately show ?thesis by blast
qed

theorem column_letter_bijective_base26_witness:
  "column_letter 28 ''X'' = column_letter 1 ''BX''
   \<and> column_letter 28 [] = Some ''AB'' \<and> column_number ''AB'' = 28"
proof -
  have step: "\<forall>n end_column. n \<noteq> 0 \<longrightarrow>
         column_letter n end_column =
           column_letter ((n - 1) div 26) (char_of (65 + (n - 1) mod 26) # end_column)"
    and spec: "\<forall>n. 0 \<le> n \<longrightarrow>
         column_letter n [] = Some (bijective_base26 n) \<and> column_number (bijective_base26 n) = n"
    using column_letter_bijective_base26 by blast+
  have b28: "bijective_base26 28 = ''AB''"
    by (simp add: bijective_base26.simps char_of_def)
  have "column_letter 28 ''X'' = column_letter 1 ''BX''"
    using step [rule_format, of 28 "''X''"] by (simp add: char_of_def)
  moreover have "column_letter 28 [] = Some ''AB'' \<and> column_number ''AB'' = 28"
    using spec [rule_format, of 28] b28 by simp
  ultimately show ?thesis by simp
qed

subsection \<open>The section extractor\<close>

lemma sample_unsupported: "''image/png'' \<notin> supported_file_types drive_constants"
  by (simp add: supported_file_types_def drive_constants_def)

text \<open>
  Claim C8. For a file whose declared MIME type is not in the supported set,
  \<^verbatim>\<open>_extract_sections_basic\<close> returns exactly one section: its text is the fixed
  unsupported-file-type sentinel, its link the view link of the file.
\<close>

theorem unsupported_mime_type_single_section:
  assumes "mimeType f = Some mime_type"
    and "mime_type \<notin> supported_file_types c"
    and "webViewLink f = Some lnk"
  shows "extract_sections_basic c env f =
           Some (Inr [\<lparr>link = lnk, text' = UNSUPPORTED_FILE_TYPE_CONTENT c\<rparr>])"
  using assms by (simp add: extract_sections_basic_def unsupported_section_def)

theorem unsupported_mime_type_single_section_witness:
  "extract_sections_basic drive_constants failing_services (sample_file ''image/png'') =
     Some (Inr [\<lparr>link = ''https://drive.example/f1'', text' = ''unsupported file type''\<rparr>])"
  using unsupported_mime_type_single_section
          [of "sample_file ''image/png''" "''image/png''" drive_constants
              "''https://drive.example/f1''" failing_services]
        sample_unsupported
  by (simp add: sample_file_def drive_constants_def)

lemmas sample_defs =
  sample_file_def drive_constants_def failing_services_def supported_file_types_def

lemma spreadsheet_supported: "SPREADSHEET c \<in> supported_file_types c"
  by (simp add: supported_file_types_def)

lemma extract_no_exception:
  assumes "mimeType f = Some mime_type" and "webViewLink f = Some lnk"
  shows "extract_sections_basic c env f \<noteq> Some (Inl e)"
  using assms
  by (simp add: extract_sections_basic_def split: option.splits sum.splits)

text \<open>
  A descriptor without the key \<^verbatim>\<open>mimeType\<close>, or with it and without the key
  \<^verbatim>\<open>webViewLink\<close>, makes the extractor raise the \<open>KeyError\<close> of line 46 or 47.
\<close>

lemma extract_key_errors:
  "mimeType f = None \<Longrightarrow>
     extract_sections_basic c env f = Some (Inl (KeyError ''mimeType''))"
  "mimeType f = Some mime_type \<Longrightarrow> webViewLink f = None \<Longrightarrow>
     extract_sections_basic c env f = Some (Inl (KeyError ''webViewLink''))"
  by (simp_all add: extract_sections_basic_def)

text \<open>
  The only exceptions that leave the extractor are the two \<open>KeyError\<close>s of lines 46--47,
  so the handler of \<^verbatim>\<open>except HttpError\<close> in the assembler is never entered.
\<close>

lemma extract_never_http_error:
  "extract_sections_basic c env f \<noteq> Some (Inl (HttpError h))"
  by (simp add: extract_sections_basic_def split: option.splits sum.splits)

text \<open>The loop over the sheets returns when every column count is non-negative.\<close>

lemma sheet_step_returns:
  assumes "0 \<le> sheet_column_count sh"
  shows "sheet_step env fid lnk sh \<noteq> None"
proof (cases "properties sh")
  case None
  then show ?thesis by (simp add: sheet_step_def)
next
  case (Some p)
  with assms have "0 \<le> (case columnCount (case gridProperties p of
        None \<Rightarrow> \<lparr>rowCount = None, columnCount = None\<rparr> | Some g \<Rightarrow> g) of None \<Rightarrow> 26 | Some k \<Rightarrow> k)"
    by (simp add: sheet_column_count_def sheet_grid_def)
  then show ?thesis
    using Some
    by (auto simp: sheet_step_def Let_def column_letter_nonneg
             split: option.splits sum.splits exn.splits)
qed

lemma sheets_loop_returns:
  assumes "\<forall>sh \<in> set shs. 0 \<le> sheet_column_count sh"
  shows "sheets_loop env fid lnk shs acc \<noteq> None"
  using assms
proof (induction shs arbitrary: acc)
  case Nil
  then show ?case by simp
next
  case (Cons sh shs)
  then have "sheet_step env fid lnk sh \<noteq> None"
    by (simp add: sheet_step_returns)
  with Cons show ?case
    by (auto split: option.splits sum.splits)
qed

lemma google_sheets_extraction_returns:
  assumes "\<forall>sh \<in> set (metadata_sheets env f). 0 \<le> sheet_column_count sh"
  shows "google_sheets_extraction env f lnk \<noteq> None"
proof -
  have "sheets_loop env fid lnk shs [] \<noteq> None"
    if "file_id f = Some fid" and "spreadsheets_get env fid = Inr sp" and "sheets sp = Some shs"
    for fid sp shs
  proof (rule sheets_loop_returns)
    from that have "metadata_sheets env f = shs"
      by (simp add: metadata_sheets_def)
    with assms show "\<forall>sh \<in> set shs. 0 \<le> sheet_column_count sh"
      by simp
  qed
  then show ?thesis
    by (simp add: google_sheets_extraction_def split: option.splits sum.splits)
qed

lemma strategies_returns:
  assumes "\<forall>sh \<in> set (metadata_sheets env f). 0 \<le> sheet_column_count sh"
  shows "strategies c env f mime_type lnk \<noteq> None"
  using google_sheets_extraction_returns [OF assms, of lnk]
  by (auto simp: strategies_def split: option.splits sum.splits)

lemma extract_returns:
  assumes "mimeType f = Some mime_type" and "webViewLink f = Some lnk"
    and "\<forall>sh \<in> set (metadata_sheets env f). 0 \<le> sheet_column_count sh"
  shows "\<exists>secs. extract_sections_basic c env f = Some (Inr secs)"
  using assms(1,2) strategies_returns [OF assms(3), of c mime_type lnk]
  by (auto simp: extract_sections_basic_def split: option.splits sum.splits)

lemma plain_text_strategy_fails:
  "strategies drive_constants failing_services (sample_file ''text/plain'') ''text/plain''
     ''https://drive.example/f1'' = Some (Inl (OtherError ''unavailable''))"
  by (simp add: strategies_def later_strategies_def plain_text_extraction_def sample_defs)

text \<open>With a negative column count the extractor does not return.\<close>

lemma negative_column_count_never_returns:
  "extract_sections_basic drive_constants endless_services
     (sample_file (SPREADSHEET drive_constants)) = None"
proof -
  have "column_letter (- 1) [] = None"
    by (simp add: column_letter_negative)
  then show ?thesis
    by (simp add: extract_sections_basic_def strategies_def google_sheets_extraction_def
          sheet_step_def endless_services_def sample_defs)
qed

lemma sample_metadata_sheets:
  "metadata_sheets sheet_services (sample_file (SPREADSHEET drive_constants)) = sample_sheets"
  by (simp add: metadata_sheets_def sheet_services_def failing_services_def sample_file_def)

lemma sample_column_counts:
  "map sheet_column_count sample_sheets = [26, 26, 26, 26]"
  by (simp add: sample_sheets_def sample_sheet_def sheet_column_count_def sheet_grid_def)

text \<open>
  Claim C1, as amended. For every file descriptor that has the keys \<^verbatim>\<open>mimeType\<close> and
  \<^verbatim>\<open>webViewLink\<close>, and every drive service, \<^verbatim>\<open>_extract_sections_basic\<close> propagates no
  exception to its caller; it returns a list of sections whenever the column counts of
  the listed sheets are non-negative; and every exception that leaves the body of its
  \<^verbatim>\<open>try\<close> is replaced by the single sentinel section with the view link of the file.
  (As stated, for every file descriptor, the claim fails: the subscripts
  \<^verbatim>\<open>file["mimeType"]\<close> and \<^verbatim>\<open>file["webViewLink"]\<close> of lines 46--47 stand before the
  \<^verbatim>\<open>try\<close>, and their \<open>KeyError\<close> reaches the caller.)
\<close>

theorem extractor_contains_exceptions:
  assumes "mimeType f = Some mime_type" and "webViewLink f = Some lnk"
  shows "(\<forall>e. extract_sections_basic c env f \<noteq> Some (Inl e))
       \<and> ((\<forall>sh \<in> set (metadata_sheets env f). 0 \<le> sheet_column_count sh) \<longrightarrow>
            (\<exists>secs. extract_sections_basic c env f = Some (Inr secs)))
       \<and> (\<forall>e. strategies c env f mime_type lnk = Some (Inl e) \<longrightarrow>
            extract_sections_basic c env f =
              Some (Inr [\<lparr>link = lnk, text' = UNSUPPORTED_FILE_TYPE_CONTENT c\<rparr>]))"
proof (intro conjI allI impI)
  fix e
  show "extract_sections_basic c env f \<noteq> Some (Inl e)"
    using assms by (rule extract_no_exception)
next
  assume "\<forall>sh \<in> set (metadata_sheets env f). 0 \<le> sheet_column_count sh"
  with assms show "\<exists>secs. extract_sections_basic c env f = Some (Inr secs)"
    by (rule extract_returns)
next
  fix e
  assume "strategies c env f mime_type lnk = Some (Inl e)"
  with assms show "extract_sections_basic c env f =
      Some (Inr [\<lparr>link = lnk, text' = UNSUPPORTED_FILE_TYPE_CONTENT c\<rparr>])"
    by (simp add: extract_sections_basic_def unsupported_section_def)
qed

theorem extractor_contains_exceptions_witness:
  "strategies drive_constants failing_services (sample_file ''text/plain'') ''text/plain''
     ''https://drive.example/f1'' = Some (Inl (OtherError ''unavailable''))
   \<and> extract_sections_basic drive_constants failing_services (sample_file ''text/plain'') =
       Some (Inr [\<lparr>link = ''https://drive.example/f1'', text' = ''unsupported file type''\<rparr>])
   \<and> map sheet_column_count
        (metadata_sheets sheet_services (sample_file (SPREADSHEET drive_constants))) =
       [26, 26, 26, 26]
   \<and> (\<exists>secs. extract_sections_basic drive_constants sheet_services
                 (sample_file (SPREADSHEET drive_constants)) = Some (Inr secs))"
proof -
  have m: "mimeType (sample_file ''text/plain'') = Some ''text/plain''"
    and l: "webViewLink (sample_file ''text/plain'') = Some ''https://drive.example/f1''"
    by (simp_all add: sample_file_def)
  have "UNSUPPORTED_FILE_TYPE_CONTENT drive_constants = ''unsupported file type''"
    by (simp add: drive_constants_def)
  then have sentinel:
    "extract_sections_basic drive_constants failing_services (sample_file ''text/plain'') =
       Some (Inr [\<lparr>link = ''https://drive.example/f1'', text' = ''unsupported file type''\<rparr>])"
    using extractor_contains_exceptions [OF m l, of drive_constants failing_services]
      plain_text_strategy_fails
    by simp
  let ?f = "sample_file (SPREADSHEET drive_constants)"
  have ms: "mimeType ?f = Some (SPREADSHEET drive_constants)"
    and ls: "webViewLink ?f = Some ''https://drive.example/f1''"
    by (simp_all add: sample_file_def)
  have counts: "map sheet_column_count (metadata_sheets sheet_services ?f) = [26, 26, 26, 26]"
    by (simp add: sample_metadata_sheets sample_column_counts)
  have "\<forall>sh \<in> set (metadata_sheets sheet_services ?f). 0 \<le> sheet_column_count sh"
  proof
    fix sh
    assume "sh \<in> set (metadata_sheets sheet_services ?f)"
    then have "sheet_column_count sh \<in> set (map sheet_column_count (metadata_sheets sheet_services ?f))"
      by simp
    then show "0 \<le> sheet_column_count sh"
      by (simp only: counts) auto
  qed
  then have "\<exists>secs. extract_sections_basic drive_constants sheet_services ?f = Some (Inr secs)"
    using extractor_contains_exceptions [OF ms ls, of drive_constants sheet_services] by blast
  with sentinel counts plain_text_strategy_fails show ?thesis
    by blast
qed

text \<open>
  A descriptor with a view link and no \<^verbatim>\<open>mimeType\<close> key: the \<open>KeyError\<close> of line 46
  leaves the extractor, and the assembler that called it.
\<close>

theorem extractor_contains_exceptions_counterexample:
  "webViewLink ((sample_file ''text/plain'')\<lparr>mimeType := None\<rparr>) = Some ''https://drive.example/f1''
   \<and> extract_sections_basic drive_constants failing_services
       ((sample_file ''text/plain'')\<lparr>mimeType := None\<rparr>) = Some (Inl (KeyError ''mimeType''))
   \<and> convert_drive_item_to_document drive_constants failing_services
       ((sample_file ''text/plain'')\<lparr>mimeType := None\<rparr>) = Some (Inl (KeyError ''mimeType''))"
proof -
  have x: "extract_sections_basic drive_constants failing_services
       ((sample_file ''text/plain'')\<lparr>mimeType := None\<rparr>) = Some (Inl (KeyError ''mimeType''))"
    by (simp add: extract_sections_basic_def sample_file_def)
  have "convert_drive_item_to_document drive_constants failing_services
       ((sample_file ''text/plain'')\<lparr>mimeType := None\<rparr>) = Some (Inl (KeyError ''mimeType''))"
    by (simp add: convert_drive_item_to_document_def convert_body_def structured_sections_def x)
       (simp add: sample_defs)
  with x show ?thesis
    by (simp add: sample_file_def)
qed

subsection \<open>The fallback of a native spreadsheet\<close>

lemma metadata_failure_is_whole_failure:
  assumes "file_id f = Some fid" and "build_sheets env = None"
    and "spreadsheets_get env fid = Inl e"
  shows "google_sheets_extraction env f lnk = Some (Inl e)"
  using assms by (simp add: google_sheets_extraction_def)

lemma later_strategies_spreadsheet:
  "later_strategies c env f (SPREADSHEET c) lnk = export_extraction c env f (SPREADSHEET c) lnk"
  by (simp add: later_strategies_def)

lemma csv_fallback:
  assumes "mimeType f = Some (SPREADSHEET c)" and "webViewLink f = Some lnk"
    and "google_sheets_extraction env f lnk = Some (Inl e)"
  shows "extract_sections_basic c env f =
           Some (Inr [\<lparr>link = lnk, text' = csv_fallback_text c env f\<rparr>])"
  using assms
  by (simp add: extract_sections_basic_def spreadsheet_supported strategies_def
        later_strategies_spreadsheet export_extraction_def csv_fallback_text_def
        unsupported_section_def
      split: option.splits sum.splits)

lemma no_metadata_csv_text:
  "csv_fallback_text drive_constants no_metadata_services
     (sample_file (SPREADSHEET drive_constants)) = ''a,b''"
  by (simp add: csv_fallback_text_def no_metadata_services_def sample_defs)

text \<open>
  Claim C3, as amended. For a file of the native spreadsheet MIME type with a view link,
  if the native Sheets extraction fails as a whole (for one, the metadata call raises),
  extraction does not fail the file and does not return an empty result: it falls
  through to the export strategy of lines 164--180 and returns exactly one section with
  the view link, whose text is the decoded \<^verbatim>\<open>text/csv\<close> export of the file, or the
  unsupported-file-type sentinel when the export cannot be had. (As stated, with the
  binary-spreadsheet strategy on the raw bytes as the fallback, the claim fails: that
  strategy is the \<^verbatim>\<open>elif\<close> of the branch already taken, and is never entered for the
  native type.)
\<close>

theorem spreadsheet_fallback_is_csv_export:
  assumes "mimeType f = Some (SPREADSHEET c)" and "webViewLink f = Some lnk"
  shows "(\<forall>e. google_sheets_extraction env f lnk = Some (Inl e) \<longrightarrow>
            extract_sections_basic c env f =
              Some (Inr [\<lparr>link = lnk, text' = csv_fallback_text c env f\<rparr>]))
       \<and> (\<forall>fid e. file_id f = Some fid \<and> build_sheets env = None
                    \<and> spreadsheets_get env fid = Inl e \<longrightarrow>
            google_sheets_extraction env f lnk = Some (Inl e))"
  using assms csv_fallback metadata_failure_is_whole_failure by blast

theorem spreadsheet_fallback_is_csv_export_witness:
  "spreadsheets_get no_metadata_services ''f1'' = Inl (OtherError ''unavailable'')
   \<and> google_sheets_extraction no_metadata_services (sample_file (SPREADSHEET drive_constants))
        ''https://drive.example/f1'' = Some (Inl (OtherError ''unavailable''))
   \<and> extract_sections_basic drive_constants no_metadata_services
        (sample_file (SPREADSHEET drive_constants)) =
       Some (Inr [\<lparr>link = ''https://drive.example/f1'', text' = ''a,b''\<rparr>])"
proof -
  let ?f = "sample_file (SPREADSHEET drive_constants)"
  have m: "mimeType ?f = Some (SPREADSHEET drive_constants)"
    and l: "webViewLink ?f = Some ''https://drive.example/f1''"
    and i: "file_id ?f = Some ''f1''"
    by (simp_all add: sample_file_def)
  have b: "build_sheets no_metadata_services = None"
    and g: "spreadsheets_get no_metadata_services ''f1'' = Inl (OtherError ''unavailable'')"
    by (simp_all add: no_metadata_services_def failing_services_def)
  note t = spreadsheet_fallback_is_csv_export [OF m l, of no_metadata_services]
  from t i b g have w: "google_sheets_extraction no_metadata_services ?f
      ''https://drive.example/f1'' = Some (Inl (OtherError ''unavailable''))"
    by blast
  with t have "extract_sections_basic drive_constants no_metadata_services ?f =
      Some (Inr [\<lparr>link = ''https://drive.example/f1'',
                   text' = csv_fallback_text drive_constants no_metadata_services ?f\<rparr>])"
    by blast
  with g w show ?thesis
    by (simp add: no_metadata_csv_text)
qed

text \<open>
  The metadata call raises, the raw bytes of the file open as a workbook with the sheet
  \<open>S\<close>, and the CSV export is \<open>a,b\<close>: the binary-spreadsheet strategy on this file
  would give the section of the sheet \<open>S\<close>, the extractor returns the CSV export.
\<close>

theorem spreadsheet_fallback_is_csv_export_counterexample:
  "mimeType (sample_file (SPREADSHEET drive_constants)) = Some (SPREADSHEET drive_constants)
   \<and> spreadsheets_get no_metadata_services ''f1'' = Inl (OtherError ''unavailable'')
   \<and> excel_extraction no_metadata_services (sample_file (SPREADSHEET drive_constants))
        ''https://drive.example/f1'' =
       Inr [\<lparr>link = ''https://drive.example/f1'', text' = ''Sheet: S\<newline>\<newline>x,3''\<rparr>]
   \<and> extract_sections_basic drive_constants no_metadata_services
        (sample_file (SPREADSHEET drive_constants)) =
       Some (Inr [\<lparr>link = ''https://drive.example/f1'', text' = ''a,b''\<rparr>])"
proof -
  have "str_int 3 = ''3''"
    by code_simp
  then have "excel_extraction no_metadata_services (sample_file (SPREADSHEET drive_constants))
        ''https://drive.example/f1'' =
       Inr [\<lparr>link = ''https://drive.example/f1'', text' = ''Sheet: S\<newline>\<newline>x,3''\<rparr>]"
    by (simp add: excel_extraction_def excel_workbook_sections_def worksheet_text_def
          no_metadata_services_def sample_defs)
  moreover have "extract_sections_basic drive_constants no_metadata_services
        (sample_file (SPREADSHEET drive_constants)) =
       Some (Inr [\<lparr>link = ''https://drive.example/f1'', text' = ''a,b''\<rparr>])"
    by (simp add: extract_sections_basic_def strategies_def google_sheets_extraction_def
          later_strategies_def export_extraction_def no_metadata_services_def sample_defs)
  moreover have "spreadsheets_get no_metadata_services ''f1'' = Inl (OtherError ''unavailable'')"
    by (simp add: no_metadata_services_def failing_services_def)
  ultimately show ?thesis
    by (simp add: sample_file_def)
qed

subsection \<open>The sections of a native spreadsheet\<close>

lemma sheet_step_ok:
  assumes wf: "well_formed_sheet sh" and ok: "fetch_ok_or_http_error env fid sh"
  shows "sheet_step env fid lnk sh =
           Some (Inr (if has_values env fid sh then [sheet_section env fid lnk sh] else []))"
proof -
  from wf obtain p t i where p: "properties sh = Some p" and t: "title p = Some t"
    and i: "sheetId p = Some i"
    by (auto simp: well_formed_sheet_def split: option.splits)
  let ?grid = "case gridProperties p of None \<Rightarrow> \<lparr>rowCount = None, columnCount = None\<rparr>
               | Some g \<Rightarrow> g"
  let ?rows = "case rowCount ?grid of None \<Rightarrow> 1000 | Some r \<Rightarrow> r"
  let ?cols = "case columnCount ?grid of None \<Rightarrow> 26 | Some k \<Rightarrow> k"
  have cols: "sheet_column_count sh = ?cols" and rows: "sheet_row_count sh = ?rows"
    using p by (simp_all add: sheet_column_count_def sheet_row_count_def sheet_grid_def)
  have name: "sheet_title sh = t" and gid: "sheet_gid sh = i"
    using p t i by (simp_all add: sheet_title_def sheet_gid_def)
  from wf cols have "0 \<le> ?cols"
    by (simp add: well_formed_sheet_def)
  then have letters: "column_letter ?cols [] = Some (bijective_base26 ?cols)"
    using column_letter_nonneg [of ?cols "[]"] by simp
  have range: "range_name t (bijective_base26 ?cols) ?rows = sheet_range sh"
    by (simp add: sheet_range_def name cols rows)
  have step: "sheet_step env fid lnk sh =
      (case values_get env fid (sheet_range sh) of
         Inl (HttpError h) \<Rightarrow> Some (Inr [])
       | Inl e \<Rightarrow> Some (Inl e)
       | Inr result \<Rightarrow>
           (let vs = (case values' result of None \<Rightarrow> [] | Some v \<Rightarrow> v)
            in if vs \<noteq> []
               then Some (Inr [\<lparr>link = lnk @ ''#gid='' @ str_int i, text' = sheet_text t vs\<rparr>])
               else Some (Inr [])))"
    by (simp add: sheet_step_def p t i Let_def letters range)
  show ?thesis
  proof (cases "values_get env fid (sheet_range sh)")
    case (Inl e)
    with ok obtain h where "e = HttpError h"
      by (cases e) (simp_all add: fetch_ok_or_http_error_def sheet_values_def)
    with Inl step show ?thesis
      by (simp add: has_values_def sheet_values_def)
  next
    case (Inr result)
    with step show ?thesis
      by (simp add: has_values_def sheet_values_def sheet_section_def name gid Let_def)
  qed
qed

lemma sheets_loop_ok:
  assumes "\<forall>sh \<in> set shs. well_formed_sheet sh \<and> fetch_ok_or_http_error env fid sh"
  shows "sheets_loop env fid lnk shs acc = Some (Inr (acc @ native_sheet_sections env fid lnk shs))"
  using assms
proof (induction shs arbitrary: acc)
  case Nil
  then show ?case by (simp add: native_sheet_sections_def)
next
  case (Cons sh shs)
  then have step: "sheet_step env fid lnk sh =
      Some (Inr (if has_values env fid sh then [sheet_section env fid lnk sh] else []))"
    by (simp add: sheet_step_ok)
  from Cons have "sheets_loop env fid lnk shs acc' =
      Some (Inr (acc' @ native_sheet_sections env fid lnk shs))" for acc'
    by simp
  with step show ?case
    by (simp add: native_sheet_sections_def)
qed

lemma sheet_section_shape:
  "link (sheet_section env fid lnk sh) = lnk @ ''#gid='' @ str_int (sheet_gid sh)
   \<and> prefix (''Sheet: '' @ sheet_title sh @ ''\<newline>'') (text' (sheet_section env fid lnk sh))"
  by (simp add: sheet_section_def sheet_text_def)

text \<open>
  Claim C4, as amended. For a native-spreadsheet file whose metadata call succeeds and
  lists sheets that each carry a title, a sheet id and a non-negative column count, and
  where no values fetch raises an exception other than \<open>HttpError\<close>, the extraction
  result contains exactly one section per sheet whose values fetch succeeds and returns
  non-empty values, in sheet order; the text of each starts with \<open>Sheet: <name>\<close> and a
  newline, and its link is the view link with the fragment \<open>#gid=<sheet id>\<close>; a sheet
  with no values contributes no section, and an \<open>HttpError\<close> of a values fetch skips that
  sheet only. (As stated, for every file whose metadata call succeeds, the claim fails:
  any other exception of one values fetch leaves the loop, and the sections of all
  sheets are given up for the export fallback.)
\<close>

theorem native_spreadsheet_sections:
  assumes "mimeType f = Some (SPREADSHEET c)" and "webViewLink f = Some lnk"
    and "file_id f = Some fid" and "build_sheets env = None"
    and "spreadsheets_get env fid = Inr sp" and "sheets sp = Some shs"
    and "\<forall>sh \<in> set shs. well_formed_sheet sh \<and> fetch_ok_or_http_error env fid sh"
  shows "extract_sections_basic c env f =
           Some (Inr (map (sheet_section env fid lnk) (filter (has_values env fid) shs)))
       \<and> (\<forall>sh \<in> set shs.
            link (sheet_section env fid lnk sh) = lnk @ ''#gid='' @ str_int (sheet_gid sh)
            \<and> prefix (''Sheet: '' @ sheet_title sh @ ''\<newline>'')
                 (text' (sheet_section env fid lnk sh)))"
proof -
  have "google_sheets_extraction env f lnk =
      Some (Inr (native_sheet_sections env fid lnk shs))"
    using assms(3-6) sheets_loop_ok [OF assms(7), of lnk "[]"]
    by (simp add: google_sheets_extraction_def)
  with assms(1,2) have "extract_sections_basic c env f =
      Some (Inr (native_sheet_sections env fid lnk shs))"
    by (simp add: extract_sections_basic_def spreadsheet_supported strategies_def)
  then have "extract_sections_basic c env f =
      Some (Inr (map (sheet_section env fid lnk) (filter (has_values env fid) shs)))"
    by (simp add: native_sheet_sections_def)
  then show ?thesis
    using sheet_section_shape by blast
qed

lemma sample_ranges:
  "sheet_range (sample_sheet t i) = range_name t ''Z'' 1000"
proof -
  have "bijective_base26 26 = ''Z''"
    by (simp add: bijective_base26.simps char_of_def)
  then show ?thesis
    by (simp add: sheet_range_def sample_sheet_def sheet_title_def sheet_column_count_def
          sheet_row_count_def sheet_grid_def)
qed

lemma range_name_inject [simp]:
  "range_name a ''Z'' 1000 = range_name b ''Z'' 1000 \<longleftrightarrow> a = b"
  by (simp add: range_name_def)

lemma sample_sheet_values:
  "sheet_values sheet_services fid (sample_sheet ''A'' 0) = Inr [[''x'', ''y''], [''z'']]"
  "sheet_values sheet_services fid (sample_sheet ''B'' 7) = Inl (HttpError (forbidden ''rateLimitExceeded''))"
  "sheet_values sheet_services fid (sample_sheet ''C'' 9) = Inr []"
  "sheet_values sheet_services fid (sample_sheet ''D'' 12) = Inr [[''w'']]"
  by (simp_all add: sheet_values_def sample_ranges sheet_services_def failing_services_def)

lemma sample_sheet_well_formed: "well_formed_sheet (sample_sheet t i)"
  by (simp add: well_formed_sheet_def sample_sheet_def sheet_column_count_def sheet_grid_def)

lemma sample_sheet_names:
  "sheet_title (sample_sheet t i) = t" "sheet_gid (sample_sheet t i) = i"
  by (simp_all add: sheet_title_def sheet_gid_def sample_sheet_def)

lemma str_int_samples: "str_int 0 = ''0''" "str_int 12 = ''12''"
  by code_simp+

theorem native_spreadsheet_sections_witness:
  "extract_sections_basic drive_constants sheet_services (sample_file (SPREADSHEET drive_constants)) =
     Some (Inr [\<lparr>link = ''https://drive.example/f1#gid=0'',
                  text' = ''Sheet: A\<newline>x'' @ [CHR 0x09] @ ''y\<newline>z\<newline>''\<rparr>,
                \<lparr>link = ''https://drive.example/f1#gid=12'',
                  text' = ''Sheet: D\<newline>w\<newline>''\<rparr>])"
proof -
  let ?f = "sample_file (SPREADSHEET drive_constants)"
  have m: "mimeType ?f = Some (SPREADSHEET drive_constants)"
    and l: "webViewLink ?f = Some ''https://drive.example/f1''"
    and i: "file_id ?f = Some ''f1''"
    by (simp_all add: sample_file_def)
  have b: "build_sheets sheet_services = None"
    and g: "spreadsheets_get sheet_services ''f1'' = Inr \<lparr>sheets = Some sample_sheets\<rparr>"
    by (simp_all add: sheet_services_def failing_services_def)
  have s: "sheets \<lparr>sheets = Some sample_sheets\<rparr> = Some sample_sheets"
    by simp
  have ok: "\<forall>sh \<in> set sample_sheets.
      well_formed_sheet sh \<and> fetch_ok_or_http_error sheet_services ''f1'' sh"
    by (simp add: sample_sheets_def sample_sheet_well_formed fetch_ok_or_http_error_def
          sample_sheet_values)
  have "filter (has_values sheet_services ''f1'') sample_sheets =
      [sample_sheet ''A'' 0, sample_sheet ''D'' 12]"
    by (simp add: sample_sheets_def has_values_def sample_sheet_values)
  moreover have "sheet_section sheet_services ''f1'' ''https://drive.example/f1'' (sample_sheet ''A'' 0) =
      \<lparr>link = ''https://drive.example/f1#gid=0'',
       text' = ''Sheet: A\<newline>x'' @ [CHR 0x09] @ ''y\<newline>z\<newline>''\<rparr>"
    by (simp add: sheet_section_def sample_sheet_values sheet_text_def str_int_samples
          sample_sheet_names)
  moreover have "sheet_section sheet_services ''f1'' ''https://drive.example/f1'' (sample_sheet ''D'' 12) =
      \<lparr>link = ''https://drive.example/f1#gid=12'', text' = ''Sheet: D\<newline>w\<newline>''\<rparr>"
    by (simp add: sheet_section_def sample_sheet_values sheet_text_def str_int_samples
          sample_sheet_names)
  ultimately show ?thesis
    using native_spreadsheet_sections [OF m l i b g s ok]
    by simp
qed

lemma timeout_sheet_values:
  "sheet_values timeout_services fid (sample_sheet ''A'' 0) = Inr [[''x'', ''y''], [''z'']]"
  "sheet_values timeout_services fid (sample_sheet ''B'' 7) = Inl (OtherError ''timed out'')"
  "sheet_values timeout_services fid (sample_sheet ''C'' 9) = Inl (OtherError ''timed out'')"
  "sheet_values timeout_services fid (sample_sheet ''D'' 12) = Inl (OtherError ''timed out'')"
  by (simp_all add: sheet_values_def sample_ranges timeout_services_def sheet_services_def
        failing_services_def)

text \<open>
  The metadata call succeeds and the fetch of sheet \<open>A\<close> returns two rows, but the fetch
  of sheet \<open>B\<close> times out: the claim asks for the section of \<open>A\<close>, the extractor returns
  the CSV export.
\<close>

theorem native_spreadsheet_sections_counterexample:
  "mimeType (sample_file (SPREADSHEET drive_constants)) = Some (SPREADSHEET drive_constants)
   \<and> spreadsheets_get timeout_services ''f1'' = Inr \<lparr>sheets = Some sample_sheets\<rparr>
   \<and> sheet_values timeout_services ''f1'' (sample_sheet ''A'' 0) = Inr [[''x'', ''y''], [''z'']]
   \<and> sheet_values timeout_services ''f1'' (sample_sheet ''B'' 7) = Inl (OtherError ''timed out'')
   \<and> map (sheet_section timeout_services ''f1'' ''https://drive.example/f1'')
        (filter (has_values timeout_services ''f1'') sample_sheets) =
       [\<lparr>link = ''https://drive.example/f1#gid=0'',
         text' = ''Sheet: A\<newline>x'' @ [CHR 0x09] @ ''y\<newline>z\<newline>''\<rparr>]
   \<and> extract_sections_basic drive_constants timeout_services
        (sample_file (SPREADSHEET drive_constants)) =
       Some (Inr [\<lparr>link = ''https://drive.example/f1'', text' = ''a,b''\<rparr>])"
proof -
  have "spreadsheets_get timeout_services ''f1'' = Inr \<lparr>sheets = Some sample_sheets\<rparr>"
    by (simp add: timeout_services_def sheet_services_def failing_services_def)
  moreover note timeout_sheet_values(1,2) [of "''f1''"]
  moreover have "map (sheet_section timeout_services ''f1'' ''https://drive.example/f1'')
        (filter (has_values timeout_services ''f1'') sample_sheets) =
       [\<lparr>link = ''https://drive.example/f1#gid=0'',
         text' = ''Sheet: A\<newline>x'' @ [CHR 0x09] @ ''y\<newline>z\<newline>''\<rparr>]"
    by (simp add: sample_sheets_def has_values_def timeout_sheet_values sheet_section_def
          sheet_text_def str_int_samples
          sample_sheet_names)
  moreover have "extract_sections_basic drive_constants timeout_services
        (sample_file (SPREADSHEET drive_constants)) =
       Some (Inr [\<lparr>link = ''https://drive.example/f1'', text' = ''a,b''\<rparr>])"
  proof -
    have a: "sheet_step timeout_services ''f1'' ''https://drive.example/f1'' (sample_sheet ''A'' 0) =
        Some (Inr [\<lparr>link = ''https://drive.example/f1#gid=0'',
                     text' = ''Sheet: A\<newline>x'' @ [CHR 0x09] @ ''y\<newline>z\<newline>''\<rparr>])"
      using sheet_step_ok [of "sample_sheet ''A'' 0" timeout_services "''f1''" "''https://drive.example/f1''"]
      by (simp add: sample_sheet_well_formed fetch_ok_or_http_error_def has_values_def
            timeout_sheet_values sheet_section_def sheet_text_def str_int_samples
          sample_sheet_names)
    have letters: "column_letter 26 [] = Some ''Z''"
      by code_simp
    have b: "sheet_step timeout_services ''f1'' ''https://drive.example/f1'' (sample_sheet ''B'' 7) =
        Some (Inl (OtherError ''timed out''))"
      by (simp add: sheet_step_def sample_sheet_def letters timeout_services_def
            sheet_services_def failing_services_def)
    have "build_sheets timeout_services = None"
      and "spreadsheets_get timeout_services ''f1'' = Inr \<lparr>sheets = Some sample_sheets\<rparr>"
      by (simp_all add: timeout_services_def sheet_services_def failing_services_def)
    then have "google_sheets_extraction timeout_services (sample_file (SPREADSHEET drive_constants))
        ''https://drive.example/f1'' = Some (Inl (OtherError ''timed out''))"
      by (simp add: google_sheets_extraction_def sample_file_def sample_sheets_def a b)
    moreover have "csv_fallback_text drive_constants timeout_services
        (sample_file (SPREADSHEET drive_constants)) = ''a,b''"
      by (simp add: csv_fallback_text_def timeout_services_def sheet_services_def sample_defs)
    ultimately show ?thesis
      using csv_fallback [of "sample_file (SPREADSHEET drive_constants)" drive_constants
          "''https://drive.example/f1''" timeout_services "OtherError ''timed out''"]
      by (simp add: sample_file_def)
  qed
  ultimately show ?thesis by (simp add: sample_file_def)
qed

subsection \<open>The document assembler\<close>

lemma build_document_sections:
  "build_document c env f secs = Inr (Some d) \<Longrightarrow> sections d = secs \<and> secs \<noteq> []"
  by (auto simp: build_document_def split: if_splits option.splits sum.splits)

lemma handle_http_error_no_document:
  "handle_http_error f h \<noteq> Inr (Some d)"
  by (simp add: handle_http_error_def split: sum.splits option.splits)

lemma convert_body_sections:
  assumes "convert_body c env f = Some (Inr (Some d))"
  shows "sections d \<noteq> []"
proof -
  from assms obtain secs where "build_document c env f secs = Inr (Some d)"
    by (auto simp: convert_body_def handle_http_error_no_document
             split: if_splits option.splits sum.splits exn.splits)
  then show ?thesis
    using build_document_sections by blast
qed

lemma convert_body_no_sections:
  assumes "structured_sections c env f = Inr []"
    and "extract_sections_basic c env f = Some (Inr [])"
  shows "convert_body c env f = Some (Inr None)"
  using assms by (simp add: convert_body_def build_document_def)

text \<open>
  Claim C5. \<^verbatim>\<open>convert_drive_item_to_document\<close> never returns a \<open>Document\<close> with an
  empty list of sections: when the structured Google-Doc path and the section extractor
  both yield no section it returns \<^verbatim>\<open>None\<close>, and every \<open>Document\<close> it returns has at
  least one section.
\<close>

theorem no_document_without_sections:
  "(structured_sections c env f = Inr [] \<and> extract_sections_basic c env f = Some (Inr []) \<longrightarrow>
      convert_drive_item_to_document c env f = Some (Inr None))
   \<and> (\<forall>d. convert_drive_item_to_document c env f = Some (Inr (Some d)) \<longrightarrow> sections d \<noteq> [])"
proof (intro conjI allI impI)
  assume "structured_sections c env f = Inr [] \<and> extract_sections_basic c env f = Some (Inr [])"
  then have "convert_body c env f = Some (Inr None)"
    by (simp add: convert_body_no_sections)
  then show "convert_drive_item_to_document c env f = Some (Inr None)"
    by (simp add: convert_drive_item_to_document_def)
next
  fix d
  assume "convert_drive_item_to_document c env f = Some (Inr (Some d))"
  then have "convert_body c env f = Some (Inr (Some d))"
    by (auto simp: convert_drive_item_to_document_def split: option.splits sum.splits if_splits)
  then show "sections d \<noteq> []"
    by (rule convert_body_sections)
qed

lemma empty_spreadsheet_extract:
  "extract_sections_basic drive_constants empty_spreadsheet_services
     (sample_file (SPREADSHEET drive_constants)) = Some (Inr [])"
  by (simp add: extract_sections_basic_def strategies_def google_sheets_extraction_def
        empty_spreadsheet_services_def sample_defs)

lemma sample_not_structured:
  "structured_sections drive_constants env (sample_file (SPREADSHEET drive_constants)) = Inr []"
  "structured_sections drive_constants env (sample_file ''text/plain'') = Inr []"
  by (simp_all add: structured_sections_def sample_defs)

lemma text_extract:
  "extract_sections_basic drive_constants text_services (sample_file ''text/plain'') =
     Some (Inr [\<lparr>link = ''https://drive.example/f1'', text' = ''hello''\<rparr>])"
  by (simp add: extract_sections_basic_def strategies_def later_strategies_def
        plain_text_extraction_def text_services_def sample_defs)

lemma text_convert:
  "convert_drive_item_to_document drive_constants text_services (sample_file ''text/plain'') =
     Some (Inr (Some hello_document))"
  by (simp add: convert_drive_item_to_document_def convert_body_def sample_not_structured
        text_extract build_document_def hello_document_def)
     (simp add: sample_defs text_services_def)

theorem no_document_without_sections_witness:
  "convert_drive_item_to_document drive_constants empty_spreadsheet_services
     (sample_file (SPREADSHEET drive_constants)) = Some (Inr None)
   \<and> convert_drive_item_to_document drive_constants text_services (sample_file ''text/plain'') =
       Some (Inr (Some hello_document))
   \<and> sections hello_document \<noteq> []"
  using no_document_without_sections
          [of drive_constants empty_spreadsheet_services "sample_file (SPREADSHEET drive_constants)"]
        no_document_without_sections
          [of drive_constants text_services "sample_file ''text/plain''"]
        empty_spreadsheet_extract sample_not_structured text_convert
  by simp

text \<open>The body of the \<^verbatim>\<open>try\<close> does not read \<^verbatim>\<open>CONTINUE_ON_CONNECTOR_FAILURE\<close>.\<close>

lemma export_extraction_flag:
  "export_extraction (c\<lparr>CONTINUE_ON_CONNECTOR_FAILURE := b\<rparr>) env f mime_type lnk =
     export_extraction c env f mime_type lnk"
  by (simp add: export_extraction_def)

lemma binary_extraction_flag:
  "binary_extraction (c\<lparr>CONTINUE_ON_CONNECTOR_FAILURE := b\<rparr>) env f mime_type lnk =
     binary_extraction c env f mime_type lnk"
  by (simp add: binary_extraction_def cong: option.case_cong sum.case_cong if_cong)

lemma later_strategies_flag:
  "later_strategies (c\<lparr>CONTINUE_ON_CONNECTOR_FAILURE := b\<rparr>) env f mime_type lnk =
     later_strategies c env f mime_type lnk"
  by (simp add: later_strategies_def export_extraction_flag binary_extraction_flag)

lemma strategies_flag:
  "strategies (c\<lparr>CONTINUE_ON_CONNECTOR_FAILURE := b\<rparr>) env f mime_type lnk =
     strategies c env f mime_type lnk"
  by (simp add: strategies_def later_strategies_flag
           cong: option.case_cong sum.case_cong if_cong)

lemma supported_file_types_flag:
  "supported_file_types (c\<lparr>CONTINUE_ON_CONNECTOR_FAILURE := b\<rparr>) = supported_file_types c"
  by (simp add: supported_file_types_def)

lemma unsupported_section_flag:
  "unsupported_section (c\<lparr>CONTINUE_ON_CONNECTOR_FAILURE := b\<rparr>) lnk = unsupported_section c lnk"
  by (simp add: unsupported_section_def)

lemma extract_sections_basic_flag:
  "extract_sections_basic (c\<lparr>CONTINUE_ON_CONNECTOR_FAILURE := b\<rparr>) env f =
     extract_sections_basic c env f"
  by (simp add: extract_sections_basic_def strategies_flag supported_file_types_flag
        unsupported_section_flag
      cong: option.case_cong sum.case_cong if_cong)

lemma build_document_flag:
  "build_document (c\<lparr>CONTINUE_ON_CONNECTOR_FAILURE := b\<rparr>) env f secs =
     build_document c env f secs"
  by (simp add: build_document_def cong: option.case_cong sum.case_cong if_cong)

lemma structured_sections_flag:
  "structured_sections (c\<lparr>CONTINUE_ON_CONNECTOR_FAILURE := b\<rparr>) env f =
     structured_sections c env f"
  by (simp add: structured_sections_def)

lemma convert_body_flag:
  "convert_body (c\<lparr>CONTINUE_ON_CONNECTOR_FAILURE := b\<rparr>) env f = convert_body c env f"
  by (simp add: convert_body_def structured_sections_flag extract_sections_basic_flag
        build_document_flag
      cong: option.case_cong sum.case_cong exn.case_cong if_cong)

text \<open>
  Claim C6. An exception that leaves the body of the assembler's \<^verbatim>\<open>try\<close> propagates to
  the caller when \<^verbatim>\<open>CONTINUE_ON_CONNECTOR_FAILURE\<close> is false; when the flag is true the
  same exception is swallowed and \<^verbatim>\<open>None\<close> is returned.
\<close>

theorem continue_on_failure_flag:
  assumes "convert_body c env f = Some (Inl e)"
  shows "convert_drive_item_to_document (c\<lparr>CONTINUE_ON_CONNECTOR_FAILURE := False\<rparr>) env f =
           Some (Inl e)
       \<and> convert_drive_item_to_document (c\<lparr>CONTINUE_ON_CONNECTOR_FAILURE := True\<rparr>) env f =
           Some (Inr None)"
  using assms by (simp add: convert_drive_item_to_document_def convert_body_flag)

lemma nameless_body:
  "convert_body drive_constants text_services ((sample_file ''text/plain'')\<lparr>name := None\<rparr>) =
     Some (Inl (KeyError ''name''))"
  by (simp add: convert_body_def structured_sections_def extract_sections_basic_def
        strategies_def later_strategies_def plain_text_extraction_def build_document_def
        text_services_def sample_defs)

theorem continue_on_failure_flag_witness:
  "convert_drive_item_to_document (drive_constants\<lparr>CONTINUE_ON_CONNECTOR_FAILURE := False\<rparr>)
     text_services ((sample_file ''text/plain'')\<lparr>name := None\<rparr>) = Some (Inl (KeyError ''name''))
   \<and> convert_drive_item_to_document (drive_constants\<lparr>CONTINUE_ON_CONNECTOR_FAILURE := True\<rparr>)
       text_services ((sample_file ''text/plain'')\<lparr>name := None\<rparr>) = Some (Inr None)"
  using continue_on_failure_flag [OF nameless_body] .

text \<open>
  Claim C2 asks that an \<open>HttpError\<close> with status 403 and a reason of
  \<open>ERRORS_TO_CONTINUE_ON\<close>, raised during generic extraction, makes the assembler return
  \<^verbatim>\<open>None\<close>. The handler of lines 271--280 does so (fourth conjunct), but it is never
  entered (\<open>extract_never_http_error\<close>): the \<^verbatim>\<open>except Exception\<close> of lines 234--235
  has already turned the error into the sentinel section. On a plain-text file whose
  download is refused with \<open>cannotDownloadFile\<close> the assembler returns a \<open>Document\<close>
  holding the sentinel section.
\<close>

theorem benign_http_error_is_indexed:
  "get_media refusing_services ''f1'' = Inl (HttpError (forbidden ''cannotDownloadFile''))
   \<and> status_code (forbidden ''cannotDownloadFile'') = 403
   \<and> ''cannotDownloadFile'' \<in> set ERRORS_TO_CONTINUE_ON
   \<and> handle_http_error (sample_file ''text/plain'') (forbidden ''cannotDownloadFile'') = Inr None
   \<and> extract_sections_basic drive_constants refusing_services (sample_file ''text/plain'') =
       Some (Inr [\<lparr>link = ''https://drive.example/f1'', text' = ''unsupported file type''\<rparr>])
   \<and> convert_drive_item_to_document drive_constants refusing_services (sample_file ''text/plain'') =
       Some (Inr (Some sentinel_document))"
proof -
  have x: "extract_sections_basic drive_constants refusing_services (sample_file ''text/plain'') =
       Some (Inr [\<lparr>link = ''https://drive.example/f1'', text' = ''unsupported file type''\<rparr>])"
    by (simp add: extract_sections_basic_def strategies_def later_strategies_def
          plain_text_extraction_def unsupported_section_def refusing_services_def sample_defs)
  have "convert_drive_item_to_document drive_constants refusing_services (sample_file ''text/plain'') =
       Some (Inr (Some sentinel_document))"
    by (simp add: convert_drive_item_to_document_def convert_body_def sample_not_structured
          x build_document_def sentinel_document_def)
       (simp add: sample_defs refusing_services_def)
  moreover have "handle_http_error (sample_file ''text/plain'') (forbidden ''cannotDownloadFile'') = Inr None"
    by (simp add: handle_http_error_def detail_or_reason_def forbidden_def
          ERRORS_TO_CONTINUE_ON_def sample_file_def)
  moreover have "get_media refusing_services ''f1'' = Inl (HttpError (forbidden ''cannotDownloadFile''))"
    by (simp add: refusing_services_def failing_services_def)
  ultimately show ?thesis
    using x by (simp add: forbidden_def ERRORS_TO_CONTINUE_ON_def)
qed

subsection \<open>The slim projection\<close>

text \<open>
  Claim C9. For every non-folder, non-shortcut file descriptor with no owners list,
  \<^verbatim>\<open>build_slim_document\<close> returns a \<open>SlimDocument\<close> whose owner email is \<^verbatim>\<open>None\<close>,
  without raising: the absent list is replaced by the default \<^verbatim>\<open>[{}]\<close>, whose first
  entry has no email address. The descriptor carries the view link that every entry
  point of the module subscripts (lines 47, 285 and 311) and that becomes the \<^verbatim>\<open>id\<close>
  of the \<open>SlimDocument\<close>.
\<close>

theorem slim_document_without_owners:
  assumes "mimeType f \<notin> set [Some (DRIVE_FOLDER_TYPE c), Some (DRIVE_SHORTCUT_TYPE c)]"
    and "owners f = None"
    and "webViewLink f = Some lnk"
  shows "\<exists>slim. build_slim_document c f = Inr (Some slim) \<and> slim_id slim = lnk
           \<and> owner_email (perm_sync_data slim) = None"
  using assms by (simp add: build_slim_document_def first_owner_email_def)

theorem slim_document_without_owners_witness:
  "\<exists>slim. build_slim_document drive_constants (sample_file ''text/plain'') = Inr (Some slim)
     \<and> slim_id slim = ''https://drive.example/f1'' \<and> owner_email (perm_sync_data slim) = None"
  using slim_document_without_owners
          [of "sample_file ''text/plain''" drive_constants "''https://drive.example/f1''"]
  by (simp add: sample_defs)

text \<open>
  Claim C10. For every non-folder, non-shortcut file descriptor whose \<^verbatim>\<open>owners\<close> field
  is present and the empty list, \<^verbatim>\<open>build_slim_document\<close> raises: indexing the first
  owner is an \<open>IndexError\<close>, and it is the exception that leaves the function unless
  the \<open>KeyError\<close> of a missing view link, evaluated first, does. The default of a null
  owner applies only when the key is absent: whenever a \<open>SlimDocument\<close> is returned the
  owners list is not the empty list, and the owner email is \<^verbatim>\<open>None\<close> for an absent key
  and that of the first owner otherwise.
\<close>

theorem empty_owners_raise:
  assumes "mimeType f \<notin> set [Some (DRIVE_FOLDER_TYPE c), Some (DRIVE_SHORTCUT_TYPE c)]"
  shows "(owners f = Some [] \<longrightarrow>
            first_owner_email f = Inl IndexError
            \<and> build_slim_document c f =
                Inl (if webViewLink f = None then KeyError ''webViewLink'' else IndexError))
       \<and> (\<forall>slim. build_slim_document c f = Inr (Some slim) \<longrightarrow>
            owners f \<noteq> Some []
            \<and> owner_email (perm_sync_data slim) =
                (case owners f of None \<Rightarrow> None | Some os \<Rightarrow> emailAddress (hd os)))"
  using assms
  by (auto simp: build_slim_document_def first_owner_email_def
           split: option.splits list.splits)

theorem empty_owners_raise_witness:
  "build_slim_document drive_constants ((sample_file ''text/plain'')\<lparr>owners := Some []\<rparr>) =
     Inl IndexError
   \<and> (\<exists>slim. build_slim_document drive_constants
        ((sample_file ''text/plain'')\<lparr>owners := Some [\<lparr>emailAddress = Some ''a@b.c''\<rparr>]\<rparr>) =
          Inr (Some slim) \<and> owner_email (perm_sync_data slim) = Some ''a@b.c'')"
proof -
  let ?e = "(sample_file ''text/plain'')\<lparr>owners := Some []\<rparr>"
  let ?o = "(sample_file ''text/plain'')\<lparr>owners := Some [\<lparr>emailAddress = Some ''a@b.c''\<rparr>]\<rparr>"
  have m: "mimeType ?e \<notin> set [Some (DRIVE_FOLDER_TYPE drive_constants),
                               Some (DRIVE_SHORTCUT_TYPE drive_constants)]"
    and n: "mimeType ?o \<notin> set [Some (DRIVE_FOLDER_TYPE drive_constants),
                               Some (DRIVE_SHORTCUT_TYPE drive_constants)]"
    by (simp_all add: sample_defs)
  have "build_slim_document drive_constants ?e = Inl IndexError"
    using empty_owners_raise [OF m] by (simp add: sample_file_def)
  moreover obtain slim where s: "build_slim_document drive_constants ?o = Inr (Some slim)"
    by (simp add: build_slim_document_def first_owner_email_def sample_defs)
  then have "owner_email (perm_sync_data slim) = Some ''a@b.c''"
    using empty_owners_raise [OF n] by (simp add: sample_file_def)
  ultimately show ?thesis
    using s by blast
qed

end
